theory Spec2Isabelle
  imports Complex_Main
begin

section \<open>JavaScript numbers\<close>

text \<open>
  Every monetary amount of the checkout service is a JavaScript \<open>number\<close>, an IEEE 754
  binary64 value. A finite double is represented here by the rational number it denotes,
  and every arithmetic operation is the exact operation followed by rounding to the nearest
  double, ties to even, which is how IEEE 754 defines addition, multiplication and division.
  Infinities, NaN and the sign of zero are not represented: validation admits finite prices
  only, and no amount of the claims below comes near the overflow threshold.
\<close>

type_synonym double = rat

definition pow2 :: "int \<Rightarrow> rat" where
  "pow2 e = (if 0 \<le> e then 2 ^ nat e else 1 / 2 ^ nat (- e))"

function bit_length :: "int \<Rightarrow> int" where
  "bit_length n = (if n \<le> 0 then 0 else 1 + bit_length (n div 2))"
  by pat_completeness auto
termination
  by (relation "measure nat") auto

declare bit_length.simps [simp del]

text \<open>\<open>ilog2 x\<close> is the binary exponent of a positive rational: \<open>2 ^ ilog2 x \<le> x < 2 ^ (ilog2 x + 1)\<close>.\<close>

definition ilog2 :: "rat \<Rightarrow> int" where
  "ilog2 x = (let (p, q) = quotient_of x;
                  d = bit_length p - bit_length q
              in if pow2 d \<le> x then d else d - 1)"

definition round_half_even :: "rat \<Rightarrow> int" where
  "round_half_even x = (let f = \<lfloor>x\<rfloor>; r = x - of_int f
     in if r < 1 / 2 then f else if 1 / 2 < r then f + 1
        else if even f then f else f + 1)"

text \<open>
  Rounding to binary64: 53 significant bits, the unit in the last place never below
  \<open>2 ^ - 1074\<close> (subnormal numbers).
\<close>

definition rnd :: "rat \<Rightarrow> double" where
  "rnd x = (if x = 0 then 0
            else let e = max (ilog2 \<bar>x\<bar> - 52) (- 1074)
                 in of_int (round_half_even (x / pow2 e)) * pow2 e)"

text \<open>
  What a double is, for the statement that \<open>rnd\<close> rounds to the nearest one: an integer
  significand below \<open>2 ^ 53\<close> in magnitude, scaled by a power of two that is not below
  \<open>2 ^ - 1074\<close>. \<open>ulp_exponent x\<close> is the exponent of the unit in the last place at \<open>x\<close>.
\<close>

definition is_double :: "rat \<Rightarrow> bool" where
  "is_double x = (\<exists>m e. x = of_int m * pow2 e \<and> \<bar>m\<bar> < 2 ^ 53 \<and> - 1074 \<le> e)"

definition ulp_exponent :: "rat \<Rightarrow> int" where
  "ulp_exponent x = max (ilog2 \<bar>x\<bar> - 52) (- 1074)"

definition fadd :: "double \<Rightarrow> double \<Rightarrow> double" where
  "fadd x y = rnd (x + y)"

definition fmul :: "double \<Rightarrow> double \<Rightarrow> double" where
  "fmul x y = rnd (x * y)"

definition fdiv :: "double \<Rightarrow> double \<Rightarrow> double" where
  "fdiv x y = rnd (x / y)"

text \<open>\<open>Math.round\<close> returns the nearest integer, a tie going towards plus infinity.\<close>

definition Math_round :: "double \<Rightarrow> double" where
  "Math_round x = of_int \<lfloor>x + 1 / 2\<rfloor>"

definition Math_floor :: "double \<Rightarrow> double" where
  "Math_floor x = of_int \<lfloor>x\<rfloor>"

definition Number_EPSILON :: double where
  "Number_EPSILON = pow2 (- 52)"

section \<open>Pricing (src/services/pricing.ts)\<close>

record CartItem =
  productId :: string
  name :: string
  price :: double
  quantity :: double

record PricedItem = CartItem +
  lineTotal :: double

record PricingResult =
  items :: "PricedItem list"
  subtotal :: double
  tax :: double
  total :: double

text \<open>
  A decimal literal denotes the double nearest to it: \<open>cents 2999\<close> is the number
  written \<open>29.99\<close>, \<open>thousandths 1005\<close> is the number written \<open>1.005\<close>, and \<open>0.10\<close> is
  the double nearest to one tenth.
\<close>

definition cents :: "int \<Rightarrow> double" where
  "cents k = rnd (of_int k / 100)"

definition thousandths :: "int \<Rightarrow> double" where
  "thousandths k = rnd (of_int k / 1000)"

definition TAX_RATE :: double where
  "TAX_RATE = rnd (1 / 10)"

definition roundTo2 :: "double \<Rightarrow> double" where
  "roundTo2 v = fdiv (Math_round (fmul (fadd v Number_EPSILON) 100)) 100"

definition calculateLineTotal :: "CartItem \<Rightarrow> PricedItem" where
  "calculateLineTotal item =
     \<lparr>productId = productId item, name = name item, price = price item,
      quantity = quantity item,
      lineTotal = roundTo2 (fmul (price item) (quantity item))\<rparr>"

definition calculatePricing :: "CartItem list \<Rightarrow> PricingResult" where
  "calculatePricing cart =
     (let pricedItems = map calculateLineTotal cart;
          subtotal = roundTo2 (foldl (\<lambda>sum item. fadd sum (lineTotal item)) 0 pricedItems);
          tax = roundTo2 (fmul subtotal TAX_RATE);
          total = roundTo2 (fadd subtotal tax)
      in \<lparr>items = pricedItems, subtotal = subtotal, tax = tax, total = total\<rparr>)"

text \<open>
  The rounding policy in the specification's words, round-half-away-from-zero to two
  decimal places: \<open>round_half_away\<close> is the nearest integer, a tie going away from zero, and
  \<open>round2_exact v\<close> takes it of the amount \<open>v\<close> itself, scaled to cents without any rounding
  error. The result is the double nearest to that number of cents, the platform's nearest
  representable equivalent of the decimal. Nothing of \<open>roundTo2\<close> enters this definition.
\<close>

definition round_half_away :: "rat \<Rightarrow> int" where
  "round_half_away x = (if 0 \<le> x then \<lfloor>x + 1 / 2\<rfloor> else - \<lfloor>- x + 1 / 2\<rfloor>)"

definition round2_exact :: "rat \<Rightarrow> double" where
  "round2_exact v = cents (round_half_away (v * 100))"

section \<open>Orders and errors (src/types/index.ts, src/utils/errors.ts)\<close>

datatype OrderStatus = CREATED | PAYMENT_CAPTURED | PAYMENT_FAILED

fun status_name :: "OrderStatus \<Rightarrow> string" where
  "status_name CREATED = ''CREATED''"
| "status_name PAYMENT_CAPTURED = ''PAYMENT_CAPTURED''"
| "status_name PAYMENT_FAILED = ''PAYMENT_FAILED''"

text \<open>
  An \<open>Order\<close> and an \<open>OrderRecord\<close> are JavaScript objects, and a DynamoDB item is a bag of
  attributes that the code casts to \<open>OrderRecord\<close> without a check. Both are maps from field
  names to values here, so that a field can be present or absent (\<open>undefined\<close>) exactly as
  in the running program: \<open>OrderRecord\<close> is an \<open>Order\<close> with the further fields
  \<open>paymentToken\<close> and \<open>ttl\<close>.
\<close>

datatype jsval = Str string | Num double | Items "PricedItem list"

type_synonym Order = "string \<rightharpoonup> jsval"

type_synonym OrderRecord = "string \<rightharpoonup> jsval"

text \<open>JavaScript truthiness of a field read: \<open>undefined\<close>, the empty string and zero are falsy.\<close>

fun truthy :: "jsval option \<Rightarrow> bool" where
  "truthy None = False"
| "truthy (Some (Str s)) = (s \<noteq> [])"
| "truthy (Some (Num x)) = (x \<noteq> 0)"
| "truthy (Some (Items xs)) = True"

text \<open>
  The exceptions of the program. \<open>ValidationError\<close> and \<open>PaymentError\<close> are the subclasses
  of \<open>AppError\<close>; \<open>ConditionalCheckFailedException\<close> is the DynamoDB client's; \<open>Error\<close>
  stands for every other exception.
\<close>

datatype error =
    ValidationError string
  | PaymentError string "jsval option"
  | ConditionalCheckFailedException
  | Error string

definition VALIDATION_ERROR :: string where
  "VALIDATION_ERROR = ''VALIDATION_ERROR''"

definition PAYMENT_FAILED_code :: string where
  "PAYMENT_FAILED_code = ''PAYMENT_FAILED''"

definition INTERNAL_ERROR :: string where
  "INTERNAL_ERROR = ''INTERNAL_ERROR''"

fun is_AppError :: "error \<Rightarrow> bool" where
  "is_AppError (ValidationError m) = True"
| "is_AppError (PaymentError m oid) = True"
| "is_AppError e = False"

fun is_PaymentError :: "error \<Rightarrow> bool" where
  "is_PaymentError (PaymentError m oid) = True"
| "is_PaymentError e = False"

fun error_code :: "error \<Rightarrow> string" where
  "error_code (ValidationError m) = VALIDATION_ERROR"
| "error_code (PaymentError m oid) = PAYMENT_FAILED_code"
| "error_code e = INTERNAL_ERROR"

fun error_statusCode :: "error \<Rightarrow> nat" where
  "error_statusCode (ValidationError m) = 400"
| "error_statusCode (PaymentError m oid) = 402"
| "error_statusCode e = 500"

fun error_message :: "error \<Rightarrow> string" where
  "error_message (ValidationError m) = m"
| "error_message (PaymentError m oid) = m"
| "error_message ConditionalCheckFailedException = ''The conditional request failed''"
| "error_message (Error m) = m"

datatype CheckoutResponse =
    SuccessResponse Order
  | ErrorResponse string string "jsval option"

record APIGatewayProxyResult =
  statusCode :: nat
  body :: CheckoutResponse

section \<open>The world outside the handler\<close>

text \<open>
  The handler's external collaborators are the DynamoDB table, keyed by \<open>cartId\<close>, and the
  payment gateway. \<open>table\<close> is the content of the table and \<open>gateway_calls\<close> is the
  gateway's record of every invocation with its arguments (order id, amount, payment token),
  as a mock of the gateway keeps it.
  \<open>calls\<close> counts the calls that awaited a collaborator so far, and \<open>faults\<close> is the
  schedule of infrastructure failures: the call number \<open>n\<close> throws a plain \<open>Error\<close>, without
  any effect on the collaborator, when \<open>faults n\<close> holds. No invocation removes an item
  from the table; the store does, by the item's \<open>ttl\<close> attribute (see \<open>expire_record\<close>).
\<close>

record world =
  table :: "string \<rightharpoonup> OrderRecord"
  gateway_calls :: "(jsval option \<times> jsval option \<times> string) list"
  calls :: nat
  faults :: "nat \<Rightarrow> bool"

text \<open>What one invocation draws from its environment: two fresh UUIDs and the clock.\<close>

record env =
  order_uuid :: string
  txn_uuid :: string
  now_iso :: string
  now_ms :: double

definition next_fault :: "world \<Rightarrow> bool \<times> world" where
  "next_fault w = (faults w (calls w), w\<lparr>calls := Suc (calls w)\<rparr>)"

text \<open>A field of the record stored for a cart, if there is one.\<close>

definition stored_field :: "world \<Rightarrow> string \<Rightarrow> string \<Rightarrow> jsval option" where
  "stored_field w cart field = (case table w cart of None \<Rightarrow> None | Some item \<Rightarrow> item field)"

subsection \<open>The DynamoDB document client\<close>

text \<open>
  The three commands the order service sends, with DynamoDB's documented meaning:
  \<open>GetCommand\<close> reads the item of a key; \<open>PutCommand\<close> with the condition
  \<open>attribute_not_exists(cartId)\<close> writes the item unless the key has one, and then fails
  with \<open>ConditionalCheckFailedException\<close>; \<open>UpdateCommand\<close> without a condition sets the
  given attributes on the item of the key and creates that item, holding the key and the
  set attributes only, when the key has none. A number comes back from the table as the
  double that was written.
\<close>

definition send_GetCommand :: "string \<Rightarrow> world \<Rightarrow> (error + OrderRecord option) \<times> world" where
  "send_GetCommand key w =
     (let (failed, w1) = next_fault w
      in if failed then (Inl (Error ''DynamoDB request failed''), w1)
         else (Inr (table w1 key), w1))"

definition send_PutCommand :: "string \<Rightarrow> OrderRecord \<Rightarrow> world \<Rightarrow> (error + unit) \<times> world" where
  "send_PutCommand key item w =
     (let (failed, w1) = next_fault w
      in if failed then (Inl (Error ''DynamoDB request failed''), w1)
         else (case table w1 key of
                 Some existing \<Rightarrow> (Inl ConditionalCheckFailedException, w1)
               | None \<Rightarrow> (Inr (), w1\<lparr>table := (table w1)(key \<mapsto> item)\<rparr>)))"

definition send_UpdateCommand ::
  "string \<Rightarrow> (string \<times> jsval) list \<Rightarrow> world \<Rightarrow> (error + unit) \<times> world" where
  "send_UpdateCommand key sets w =
     (let (failed, w1) = next_fault w
      in if failed then (Inl (Error ''DynamoDB request failed''), w1)
         else (let item = (case table w1 key of
                             Some existing \<Rightarrow> existing
                           | None \<Rightarrow> [''cartId'' \<mapsto> Str key])
               in (Inr (), w1\<lparr>table := (table w1)(key \<mapsto> item ++ map_of sets)\<rparr>)))"

subsection \<open>Time to live (infra/lib/checkout-stack.ts)\<close>

text \<open>
  The table is created with \<open>timeToLiveAttribute: "ttl"\<close>. The store therefore deletes an
  item on its own once its clock, in seconds since the epoch, has passed the number held
  in the item's \<open>ttl\<close> attribute; an item without a number in that attribute stays.
  \<open>expired key now w\<close> says that the item of \<open>key\<close> is due at the time \<open>now\<close>, and
  \<open>expire_record\<close> is the store's deletion of an item that is due. The order service sets
  \<open>ttl\<close> to 24 hours after the creation of the record.
\<close>

definition expired :: "string \<Rightarrow> double \<Rightarrow> world \<Rightarrow> bool" where
  "expired key now w =
     (case table w key of
        Some item \<Rightarrow> (case item ''ttl'' of Some (Num t) \<Rightarrow> t < now | _ \<Rightarrow> False)
      | None \<Rightarrow> False)"

definition expire_record :: "string \<Rightarrow> double \<Rightarrow> world \<Rightarrow> world" where
  "expire_record key now w =
     (if expired key now w then w\<lparr>table := (table w)(key := None)\<rparr> else w)"

section \<open>The order service (src/services/order.ts)\<close>

definition TTL_HOURS :: double where
  "TTL_HOURS = 24"

definition mapRecordToOrder :: "OrderRecord \<Rightarrow> Order" where
  "mapRecordToOrder record =
     (record |` {''orderId'', ''cartId'', ''status'', ''items'', ''subtotal'', ''tax'',
                 ''total'', ''createdAt''})
     ++ (if truthy (record ''transactionId'') then record |` {''transactionId''}
         else Map.empty)"

definition getExistingOrder :: "string \<Rightarrow> world \<Rightarrow> (error + Order option) \<times> world" where
  "getExistingOrder cartId w =
     (case send_GetCommand cartId w of
        (Inl e, w1) \<Rightarrow> (Inl e, w1)
      | (Inr None, w1) \<Rightarrow> (Inr None, w1)
      | (Inr (Some item), w1) \<Rightarrow> (Inr (Some (mapRecordToOrder item)), w1))"

definition new_record :: "env \<Rightarrow> string \<Rightarrow> string \<Rightarrow> PricingResult \<Rightarrow> OrderRecord" where
  "new_record ev cartId paymentToken pricing =
     (let now = now_iso ev;
          orderId = ''ord-'' @ order_uuid ev;
          ttl = fadd (Math_floor (fdiv (now_ms ev) 1000)) (fmul TTL_HOURS 3600)
      in [''orderId'' \<mapsto> Str orderId,
          ''cartId'' \<mapsto> Str cartId,
          ''status'' \<mapsto> Str (status_name CREATED),
          ''items'' \<mapsto> Items (items pricing),
          ''subtotal'' \<mapsto> Num (subtotal pricing),
          ''tax'' \<mapsto> Num (tax pricing),
          ''total'' \<mapsto> Num (total pricing),
          ''paymentToken'' \<mapsto> Str paymentToken,
          ''createdAt'' \<mapsto> Str now,
          ''ttl'' \<mapsto> Num ttl])"

definition createOrder ::
  "env \<Rightarrow> string \<Rightarrow> string \<Rightarrow> PricingResult \<Rightarrow> world \<Rightarrow> (error + Order \<times> bool) \<times> world" where
  "createOrder ev cartId paymentToken pricing w =
     (let record = new_record ev cartId paymentToken pricing
      in case send_PutCommand cartId record w of
           (Inr u, w1) \<Rightarrow> (Inr (mapRecordToOrder record, False), w1)
         | (Inl ConditionalCheckFailedException, w1) \<Rightarrow>
             (case getExistingOrder cartId w1 of
                (Inl e, w2) \<Rightarrow> (Inl e, w2)
              | (Inr None, w2) \<Rightarrow>
                  (Inl (Error (''Race condition: order for cartId '' @ cartId
                               @ '' disappeared after conditional check'')), w2)
              | (Inr (Some existing), w2) \<Rightarrow> (Inr (existing, True), w2))
         | (Inl e, w1) \<Rightarrow> (Inl e, w1))"

definition updateOrderStatus ::
  "string \<Rightarrow> OrderStatus \<Rightarrow> string option \<Rightarrow> world \<Rightarrow> (error + unit) \<times> world" where
  "updateOrderStatus cartId status transactionId w =
     send_UpdateCommand cartId
       ((''status'', Str (status_name status))
        # (case transactionId of
             Some txn \<Rightarrow> (if txn \<noteq> [] then [(''transactionId'', Str txn)] else [])
           | None \<Rightarrow> []))
       w"

section \<open>The payment service (src/services/payment.ts)\<close>

record PaymentResult =
  transactionId :: string
  status :: string

definition FAILURE_TOKENS :: "string set" where
  "FAILURE_TOKENS = {''tok_fail'', ''tok_declined'', ''tok_insufficient_funds''}"

text \<open>
  The gateway of the repository declines the tokens of \<open>FAILURE_TOKENS\<close> with a
  \<open>PaymentError\<close> and captures every other one. It stands for a real gateway, so the
  call is also subject to the failure schedule: a scheduled failure is the unexpected
  exception of a gateway that is not a decline, the \<open>Error("Network timeout")\<close> with which
  the handler's tests make the gateway reject.
\<close>

definition capturePayment ::
  "env \<Rightarrow> jsval option \<Rightarrow> jsval option \<Rightarrow> string \<Rightarrow> world \<Rightarrow> (error + PaymentResult) \<times> world" where
  "capturePayment ev orderId amount paymentToken w =
     (let (failed, w1) =
            next_fault (w\<lparr>gateway_calls := gateway_calls w @ [(orderId, amount, paymentToken)]\<rparr>)
      in if failed then (Inl (Error ''Network timeout''), w1)
         else if paymentToken \<in> FAILURE_TOKENS
         then (Inl (PaymentError ''Payment capture failed'' orderId), w1)
         else (Inr \<lparr>transactionId = ''txn-'' @ txn_uuid ev, status = ''captured''\<rparr>, w1))"

section \<open>Validation (src/services/validation.ts)\<close>

record CheckoutRequest =
  cartId :: string
  cart_items :: "CartItem list"
  paymentToken :: string

text \<open>
  The schema is checked on a parsed body whose fields have the right types (\<open>None\<close> is
  the body \<open>null\<close>; fields of a wrong type are not represented). The issues come in the
  order of the schema's keys, and the first one becomes the message of the
  \<open>ValidationError\<close>.
\<close>

definition show_digit :: "nat \<Rightarrow> char" where
  "show_digit d = ''0123456789'' ! d"

fun show_nat :: "nat \<Rightarrow> string" where
  "show_nat n = (if n < 10 then [show_digit n] else show_nat (n div 10) @ [show_digit (n mod 10)])"

declare show_nat.simps [simp del]

definition item_issue :: "CartItem \<Rightarrow> string option" where
  "item_issue item =
     (if productId item = [] then Some ''productId must be a non-empty string''
      else if name item = [] then Some ''name must be a non-empty string''
      else if \<not> 0 < price item then Some ''Item price must be greater than 0''
      else if of_int \<lfloor>quantity item\<rfloor> \<noteq> quantity item then Some ''Item quantity must be a whole number''
      else if quantity item < 1 then Some ''Item quantity must be at least 1''
      else None)"

fun first_item_issue :: "nat \<Rightarrow> CartItem list \<Rightarrow> string option" where
  "first_item_issue i [] = None"
| "first_item_issue i (item # rest) =
     (case item_issue item of
        Some m \<Rightarrow> Some (''Item at index '' @ show_nat i @ '': '' @ m)
      | None \<Rightarrow> first_item_issue (Suc i) rest)"

definition validateCheckoutRequest :: "CheckoutRequest option \<Rightarrow> error + CheckoutRequest" where
  "validateCheckoutRequest b =
     (case b of
        None \<Rightarrow> Inl (ValidationError ''Request body is required'')
      | Some r \<Rightarrow>
          (if cartId r = [] then Inl (ValidationError ''cartId must be a non-empty string'')
           else if cart_items r = [] then Inl (ValidationError ''Cart must contain at least one item'')
           else (case first_item_issue 0 (cart_items r) of
                   Some m \<Rightarrow> Inl (ValidationError m)
                 | None \<Rightarrow>
                     (if paymentToken r = []
                      then Inl (ValidationError ''paymentToken must be a non-empty string'')
                      else Inr r))))"

section \<open>The checkout handler (src/handlers/checkout.ts)\<close>

text \<open>
  The body of the event is absent, not JSON, or parsed. Logging and the correlation id
  have no effect on the result and are left out, and so is the constant
  \<open>Content-Type\<close> header of every answer; the response body is kept as the value that
  \<open>JSON.stringify\<close> is applied to.
\<close>

datatype event_body = Absent | Malformed | Parsed CheckoutRequest

definition respond :: "nat \<Rightarrow> CheckoutResponse \<Rightarrow> APIGatewayProxyResult" where
  "respond sc b = \<lparr>statusCode = sc, body = b\<rparr>"

text \<open>The handler's outer \<open>catch\<close>: an \<open>AppError\<close> answers with its own code, anything else with 500.\<close>

definition outer_catch :: "error \<Rightarrow> APIGatewayProxyResult" where
  "outer_catch e =
     (if is_AppError e
      then respond (error_statusCode e) (ErrorResponse (error_code e) (error_message e) None)
      else respond 500 (ErrorResponse INTERNAL_ERROR ''An unexpected error occurred'' None))"

text \<open>The inner \<open>catch\<close> around the payment step.\<close>

definition payment_catch ::
  "CheckoutRequest \<Rightarrow> Order \<Rightarrow> error \<Rightarrow> world \<Rightarrow> (error + APIGatewayProxyResult) \<times> world" where
  "payment_catch request order paymentError w =
     (case updateOrderStatus (cartId request) PAYMENT_FAILED None w of
        (Inl e, w1) \<Rightarrow> (Inl e, w1)
      | (Inr u, w1) \<Rightarrow>
          (if is_PaymentError paymentError
           then (Inr (respond 402 (ErrorResponse PAYMENT_FAILED_code (error_message paymentError)
                                      (order ''orderId''))), w1)
           else (Inl paymentError, w1)))"

definition completedOrder :: "Order \<Rightarrow> string \<Rightarrow> Order" where
  "completedOrder order txn =
     order(''status'' \<mapsto> Str (status_name PAYMENT_CAPTURED), ''transactionId'' \<mapsto> Str txn)"

text \<open>The inner \<open>try\<close>: capture, then record the capture.\<close>

definition payment_try ::
  "env \<Rightarrow> CheckoutRequest \<Rightarrow> Order \<Rightarrow> world \<Rightarrow> (error + APIGatewayProxyResult) \<times> world" where
  "payment_try ev request order w =
     (case capturePayment ev (order ''orderId'') (order ''total'') (paymentToken request) w of
        (Inl e, w1) \<Rightarrow> (Inl e, w1)
      | (Inr paymentResult, w1) \<Rightarrow>
          (case updateOrderStatus (cartId request) PAYMENT_CAPTURED
                  (Some (transactionId paymentResult)) w1 of
             (Inl e, w2) \<Rightarrow> (Inl e, w2)
           | (Inr u, w2) \<Rightarrow>
               (Inr (respond 201 (SuccessResponse
                       (completedOrder order (transactionId paymentResult)))), w2)))"

definition payment_step ::
  "env \<Rightarrow> CheckoutRequest \<Rightarrow> Order \<Rightarrow> world \<Rightarrow> (error + APIGatewayProxyResult) \<times> world" where
  "payment_step ev request order w =
     (case payment_try ev request order w of
        (Inl paymentError, w1) \<Rightarrow> payment_catch request order paymentError w1
      | (Inr response, w1) \<Rightarrow> (Inr response, w1))"

text \<open>The outer \<open>try\<close> from validation on.\<close>

definition checkout ::
  "env \<Rightarrow> CheckoutRequest option \<Rightarrow> world \<Rightarrow> (error + APIGatewayProxyResult) \<times> world" where
  "checkout ev b w =
     (case validateCheckoutRequest b of
        Inl e \<Rightarrow> (Inl e, w)
      | Inr request \<Rightarrow>
          (case getExistingOrder (cartId request) w of
             (Inl e, w1) \<Rightarrow> (Inl e, w1)
           | (Inr (Some existingOrder), w1) \<Rightarrow>
               (Inr (respond 200 (SuccessResponse existingOrder)), w1)
           | (Inr None, w1) \<Rightarrow>
               (let pricing = calculatePricing (cart_items request)
                in case createOrder ev (cartId request) (paymentToken request) pricing w1 of
                     (Inl e, w2) \<Rightarrow> (Inl e, w2)
                   | (Inr (order, isExisting), w2) \<Rightarrow>
                       (if isExisting
                        then (Inr (respond 200 (SuccessResponse order)), w2)
                        else payment_step ev request order w2))))"

definition handler :: "env \<Rightarrow> event_body \<Rightarrow> world \<Rightarrow> APIGatewayProxyResult \<times> world" where
  "handler ev b w =
     (case b of
        Malformed \<Rightarrow>
          (respond 400 (ErrorResponse VALIDATION_ERROR ''Invalid JSON in request body'' None), w)
      | _ \<Rightarrow>
          (case checkout ev (case b of Parsed r \<Rightarrow> Some r | _ \<Rightarrow> None) w of
             (Inr response, w1) \<Rightarrow> (response, w1)
           | (Inl e, w1) \<Rightarrow> (outer_catch e, w1)))"

section \<open>Concurrent invocations\<close>

text \<open>
  Invocations share nothing but the table and the gateway, and an invocation can be
  overtaken by another one wherever it awaits a collaborator. An invocation is therefore a
  process that takes one step per awaited call, and a system of invocations is an
  interleaving of such steps. The states name the call that is about to be made.
\<close>

datatype proc =
    Received env event_body
  | Put_pending env CheckoutRequest
  | Reread_pending CheckoutRequest
  | Capture_pending env CheckoutRequest Order
  | Mark_captured_pending CheckoutRequest Order string
  | Mark_failed_pending CheckoutRequest Order error
  | Returned APIGatewayProxyResult

fun proc_step :: "proc \<Rightarrow> world \<Rightarrow> proc \<times> world" where
  "proc_step (Received ev b) w =
     (case b of
        Malformed \<Rightarrow>
          (Returned (respond 400 (ErrorResponse VALIDATION_ERROR ''Invalid JSON in request body'' None)), w)
      | _ \<Rightarrow>
          (case validateCheckoutRequest (case b of Parsed r \<Rightarrow> Some r | _ \<Rightarrow> None) of
             Inl e \<Rightarrow> (Returned (outer_catch e), w)
           | Inr request \<Rightarrow>
               (case getExistingOrder (cartId request) w of
                  (Inl e, w1) \<Rightarrow> (Returned (outer_catch e), w1)
                | (Inr (Some existingOrder), w1) \<Rightarrow>
                    (Returned (respond 200 (SuccessResponse existingOrder)), w1)
                | (Inr None, w1) \<Rightarrow> (Put_pending ev request, w1))))"
| "proc_step (Put_pending ev request) w =
     (let record = new_record ev (cartId request) (paymentToken request)
                     (calculatePricing (cart_items request))
      in case send_PutCommand (cartId request) record w of
           (Inr u, w1) \<Rightarrow> (Capture_pending ev request (mapRecordToOrder record), w1)
         | (Inl ConditionalCheckFailedException, w1) \<Rightarrow> (Reread_pending request, w1)
         | (Inl e, w1) \<Rightarrow> (Returned (outer_catch e), w1))"
| "proc_step (Reread_pending request) w =
     (case getExistingOrder (cartId request) w of
        (Inl e, w1) \<Rightarrow> (Returned (outer_catch e), w1)
      | (Inr None, w1) \<Rightarrow>
          (Returned (outer_catch (Error (''Race condition: order for cartId '' @ cartId request
                                        @ '' disappeared after conditional check''))), w1)
      | (Inr (Some existing), w1) \<Rightarrow> (Returned (respond 200 (SuccessResponse existing)), w1))"
| "proc_step (Capture_pending ev request order) w =
     (case capturePayment ev (order ''orderId'') (order ''total'') (paymentToken request) w of
        (Inl e, w1) \<Rightarrow> (Mark_failed_pending request order e, w1)
      | (Inr paymentResult, w1) \<Rightarrow>
          (Mark_captured_pending request order (transactionId paymentResult), w1))"
| "proc_step (Mark_captured_pending request order txn) w =
     (case updateOrderStatus (cartId request) PAYMENT_CAPTURED (Some txn) w of
        (Inl e, w1) \<Rightarrow> (Mark_failed_pending request order e, w1)
      | (Inr u, w1) \<Rightarrow>
          (Returned (respond 201 (SuccessResponse (completedOrder order txn))), w1))"
| "proc_step (Mark_failed_pending request order paymentError) w =
     (case payment_catch request order paymentError w of
        (Inl e, w1) \<Rightarrow> (Returned (outer_catch e), w1)
      | (Inr response, w1) \<Rightarrow> (Returned response, w1))"
| "proc_step (Returned response) w = (Returned response, w)"

fun run_proc :: "nat \<Rightarrow> proc \<Rightarrow> world \<Rightarrow> proc \<times> world" where
  "run_proc 0 p w = (p, w)"
| "run_proc (Suc n) p w = (case proc_step p w of (p', w') \<Rightarrow> run_proc n p' w')"

text \<open>
  A step that invokes the gateway is labelled with the cart it is made for and the
  arguments of the call; every other step is silent.
\<close>

fun capture_label :: "proc \<Rightarrow> (string \<times> jsval option \<times> jsval option \<times> string) list" where
  "capture_label (Capture_pending ev request order) =
     [(cartId request, order ''orderId'', order ''total'', paymentToken request)]"
| "capture_label p = []"

text \<open>
  \<open>reachable w0 w ps cs xs\<close>: from the world \<open>w0\<close> and no invocation, the system can come to
  the world \<open>w\<close> with the invocations \<open>ps\<close>, having made the gateway calls \<open>cs\<close>, while the
  store has expired the records of the carts \<open>xs\<close>, one entry for each deletion. A new
  invocation can arrive at any time, any invocation can take its next step at any time,
  and the store can delete a record that is due at any time.
\<close>

inductive reachable ::
  "world \<Rightarrow> world \<Rightarrow> proc list \<Rightarrow> (string \<times> jsval option \<times> jsval option \<times> string) list
     \<Rightarrow> string list \<Rightarrow> bool"
  for w0 :: world where
  start: "reachable w0 w0 [] [] []"
| arrive: "reachable w0 w ps cs xs \<Longrightarrow> reachable w0 w (ps @ [Received ev b]) cs xs"
| step: "reachable w0 w ps cs xs \<Longrightarrow> i < length ps \<Longrightarrow> proc_step (ps ! i) w = (p', w')
         \<Longrightarrow> reachable w0 w' (ps[i := p']) (cs @ capture_label (ps ! i)) xs"
| expire: "reachable w0 w ps cs xs \<Longrightarrow> expired c now w
         \<Longrightarrow> reachable w0 (expire_record c now w) ps cs (xs @ [c])"

text \<open>
  A schedule is the list of what happens next: the invocation at a position takes its
  step, or the store expires the record of a cart at a time of its clock. Running a
  schedule is the executable form of \<open>reachable\<close>.
\<close>

datatype action = Step nat | Expire string double

fun sys_step ::
  "action \<Rightarrow> world \<times> proc list \<times> (string \<times> jsval option \<times> jsval option \<times> string) list
                \<times> string list
       \<Rightarrow> world \<times> proc list \<times> (string \<times> jsval option \<times> jsval option \<times> string) list
                \<times> string list" where
  "sys_step (Step i) (w, ps, cs, xs) =
     (if i < length ps
      then (case proc_step (ps ! i) w of
              (p', w') \<Rightarrow> (w', ps[i := p'], cs @ capture_label (ps ! i), xs))
      else (w, ps, cs, xs))"
| "sys_step (Expire c now) (w, ps, cs, xs) =
     (if expired c now w then (expire_record c now w, ps, cs, xs @ [c]) else (w, ps, cs, xs))"

definition run_schedule ::
  "action list \<Rightarrow> world \<times> proc list \<times> (string \<times> jsval option \<times> jsval option \<times> string) list
                     \<times> string list
       \<Rightarrow> world \<times> proc list \<times> (string \<times> jsval option \<times> jsval option \<times> string) list
                \<times> string list" where
  "run_schedule sched s = foldl (\<lambda>s a. sys_step a s) s sched"

text \<open>The invocations that are about to call the gateway for a cart.\<close>

fun holds_capture :: "string \<Rightarrow> proc \<Rightarrow> bool" where
  "holds_capture c (Capture_pending ev request order) = (cartId request = c)"
| "holds_capture c p = False"

text \<open>
  The orders an invocation holds, and the order of its answer once it has returned, are
  without a \<open>paymentToken\<close> field.
\<close>

fun holds_no_token :: "proc \<Rightarrow> bool" where
  "holds_no_token (Capture_pending ev request order) = (order ''paymentToken'' = None)"
| "holds_no_token (Mark_captured_pending request order txn) = (order ''paymentToken'' = None)"
| "holds_no_token (Mark_failed_pending request order e) = (order ''paymentToken'' = None)"
| "holds_no_token (Returned response) =
     (case body response of
        SuccessResponse order \<Rightarrow> order ''paymentToken'' = None
      | ErrorResponse c m oid \<Rightarrow> True)"
| "holds_no_token p = True"

section \<open>The state after a successful creation\<close>

text \<open>
  The record that \<open>createOrder\<close> persists for a request, the order it returns for it, and
  the world in which the idempotency check found nothing and the record was then written:
  two awaited calls later, with that record in the table.
\<close>

definition created_record :: "env \<Rightarrow> CheckoutRequest \<Rightarrow> OrderRecord" where
  "created_record ev request =
     new_record ev (cartId request) (paymentToken request) (calculatePricing (cart_items request))"

definition created_order :: "env \<Rightarrow> CheckoutRequest \<Rightarrow> Order" where
  "created_order ev request = mapRecordToOrder (created_record ev request)"

definition created_world :: "env \<Rightarrow> CheckoutRequest \<Rightarrow> world \<Rightarrow> world" where
  "created_world ev request w =
     w\<lparr>calls := Suc (Suc (calls w)),
       table := (table w)(cartId request \<mapsto> created_record ev request)\<rparr>"

section \<open>Sample data\<close>

text \<open>The request of the handler's tests, an environment, and a world with an empty table.\<close>

definition sample_request :: CheckoutRequest where
  "sample_request =
     \<lparr>cartId = ''cart-123'',
      cart_items =
        [\<lparr>productId = ''p1'', name = ''Widget'', price = cents 2999, quantity = 2\<rparr>,
         \<lparr>productId = ''p2'', name = ''Cable'', price = cents 999, quantity = 1\<rparr>],
      paymentToken = ''tok_valid''\<rparr>"

definition declined_request :: CheckoutRequest where
  "declined_request = sample_request\<lparr>paymentToken := ''tok_declined''\<rparr>"

definition sample_env :: env where
  "sample_env =
     \<lparr>order_uuid = ''0a1b'', txn_uuid = ''7e8f'', now_iso = ''2026-02-20T12:00:00.000Z'',
      now_ms = 1771588800000\<rparr>"

definition other_env :: env where
  "other_env =
     \<lparr>order_uuid = ''2c3d'', txn_uuid = ''9a0b'', now_iso = ''2026-02-20T12:00:00.005Z'',
      now_ms = 1771588800005\<rparr>"

text \<open>An invocation that arrives a day and a hundred seconds after \<open>sample_env\<close>.\<close>

definition later_env :: env where
  "later_env =
     \<lparr>order_uuid = ''4e5f'', txn_uuid = ''b1c2'', now_iso = ''2026-02-21T12:01:40.000Z'',
      now_ms = 1771675300000\<rparr>"

definition empty_world :: world where
  "empty_world = \<lparr>table = Map.empty, gateway_calls = [], calls = 0, faults = (\<lambda>n. False)\<rparr>"

text \<open>A record as the order service's tests store it, and a world that holds it.\<close>

definition stored_record :: OrderRecord where
  "stored_record =
     [''orderId'' \<mapsto> Str ''ord-existing-123'',
      ''cartId'' \<mapsto> Str ''cart-123'',
      ''status'' \<mapsto> Str ''PAYMENT_CAPTURED'',
      ''items'' \<mapsto> Items [\<lparr>productId = ''p1'', name = ''Widget'', price = cents 2999,
                                quantity = 2, lineTotal = cents 5998\<rparr>],
      ''subtotal'' \<mapsto> Num (cents 5998),
      ''tax'' \<mapsto> Num 6,
      ''total'' \<mapsto> Num (cents 6598),
      ''paymentToken'' \<mapsto> Str ''tok_valid'',
      ''transactionId'' \<mapsto> Str ''txn-abc'',
      ''createdAt'' \<mapsto> Str ''2026-02-20T12:00:00.000Z'',
      ''ttl'' \<mapsto> Num 1740000000]"

definition stored_world :: world where
  "stored_world = empty_world\<lparr>table := [''cart-123'' \<mapsto> stored_record]\<rparr>"

text \<open>
  Two invocations for the cart of the tests race: both pass the idempotency check before
  either one writes, the first one wins the conditional put, and the second one re-reads
  and returns while the first one goes on to capture the payment.
\<close>

definition race ::
  "world \<times> proc list \<times> (string \<times> jsval option \<times> jsval option \<times> string) list
     \<times> string list" where
  "race = run_schedule [Step 0, Step 1, Step 0, Step 1, Step 1, Step 0, Step 0]
            (empty_world,
             [Received sample_env (Parsed sample_request),
              Received other_env (Parsed sample_request)],
             [], [])"

text \<open>
  The same cart a day later. The first invocation creates the order, captures the payment
  and returns. The record it wrote is due 24 hours after its creation, and the store
  deletes it one second after that. A second invocation for the same cart then finds no
  record, creates another order and captures the payment again.
\<close>

definition recapture ::
  "world \<times> proc list \<times> (string \<times> jsval option \<times> jsval option \<times> string) list
     \<times> string list" where
  "recapture = run_schedule [Step 0, Step 0, Step 0, Step 0, Expire ''cart-123'' 1771675201,
                             Step 1, Step 1, Step 1, Step 1]
            (empty_world,
             [Received sample_env (Parsed sample_request),
              Received later_env (Parsed sample_request)],
             [], [])"

text \<open>
  The order service alone, over the same day: \<open>createOrder\<close> writes the record of the cart,
  the store deletes it when it is due, and \<open>createOrder\<close> is called again a day later.
\<close>

definition first_created :: world where
  "first_created =
     snd (createOrder sample_env ''cart-123'' ''tok_valid''
            (calculatePricing (cart_items sample_request)) empty_world)"

definition after_expiry :: world where
  "after_expiry = expire_record ''cart-123'' 1771675201 first_created"

text \<open>The world with an empty table in which the awaited call number \<open>n\<close> fails.\<close>

definition failing_at :: "nat \<Rightarrow> world" where
  "failing_at n = empty_world\<lparr>faults := (\<lambda>k. k = n)\<rparr>"

section \<open>Properties of the number model\<close>

text \<open>
  The rounding of the model is the rounding of IEEE 754: \<open>rnd x\<close> is a double, no double
  is nearer to \<open>x\<close> than it, a tie between two integers goes to the even one, and a
  double is its own rounding.
\<close>

lemma pow2_pos: "0 < pow2 e"
  by (simp add: pow2_def)

lemma pow2_powi: "pow2 e = 2 powi e"
  by (simp add: pow2_def power_int_def inverse_eq_divide power_one_over)

lemma pow2_add: "pow2 (a + b) = pow2 a * pow2 b"
  by (simp add: pow2_powi power_int_add)

lemma pow2_nat: "pow2 (int n) = 2 ^ n"
  by (simp add: pow2_def)

lemma pow2_mono: "a \<le> b \<Longrightarrow> pow2 a \<le> pow2 b"
  by (simp add: pow2_powi power_int_increasing)

lemma pow2_strict_mono: "a < b \<Longrightarrow> pow2 a < pow2 b"
  by (simp add: pow2_powi power_int_strict_increasing)

lemma bit_length_nonneg: "0 \<le> bit_length n"
  by (induction n rule: bit_length.induct) (simp add: bit_length.simps)

lemma bit_length_bounds:
  "0 < n \<Longrightarrow> 2 ^ nat (bit_length n - 1) \<le> n \<and> n < 2 ^ nat (bit_length n)"
proof (induction n rule: bit_length.induct)
  case (1 n)
  show ?case
  proof (cases "n = 1")
    case True
    then have "bit_length n = 1"
      by (simp add: bit_length.simps [of 1] bit_length.simps [of 0])
    then show ?thesis
      using True by simp
  next
    case False
    with "1.prems" have n: "2 \<le> n" by simp
    then have h: "0 < n div 2" by simp
    from "1.IH" [OF _ h] "1.prems"
    have ih: "2 ^ nat (bit_length (n div 2) - 1) \<le> n div 2" "n div 2 < 2 ^ nat (bit_length (n div 2))"
      by simp_all
    have bl: "bit_length n = 1 + bit_length (n div 2)"
      using "1.prems" by (simp add: bit_length.simps [of n])
    have pos: "1 \<le> bit_length (n div 2)"
      using h bit_length_nonneg [of "n div 2 div 2"] by (simp add: bit_length.simps [of "n div 2"])
    have e1: "nat (bit_length n - 1) = Suc (nat (bit_length (n div 2) - 1))"
      using bl pos by simp
    have e2: "nat (bit_length n) = Suc (nat (bit_length (n div 2)))"
      using bl pos by simp
    have "2 * 2 ^ nat (bit_length (n div 2) - 1) \<le> 2 * (n div 2)"
      using ih(1) by simp
    also have "\<dots> \<le> n" by simp
    finally have lo: "2 ^ nat (bit_length n - 1) \<le> n"
      by (simp add: e1)
    have "n div 2 + 1 \<le> 2 ^ nat (bit_length (n div 2))"
      using ih(2) by simp
    then have "2 * (n div 2 + 1) \<le> 2 * 2 ^ nat (bit_length (n div 2))"
      by simp
    moreover have "n < 2 * (n div 2 + 1)"
      by simp
    ultimately have hi: "n < 2 ^ nat (bit_length n)"
      by (simp add: e2)
    show ?thesis
      using lo hi by simp
  qed
qed

lemma bit_length_pos: "0 < n \<Longrightarrow> 1 \<le> bit_length n"
  using bit_length_nonneg [of "n div 2"] by (simp add: bit_length.simps [of n])

lemma of_int_bit_length_bounds:
  assumes "0 < n"
  shows "pow2 (bit_length n - 1) \<le> of_int n" and "of_int n < pow2 (bit_length n)"
proof -
  have b: "1 \<le> bit_length n"
    using assms by (rule bit_length_pos)
  have "(2::int) ^ nat (bit_length n - 1) \<le> n" "n < 2 ^ nat (bit_length n)"
    using bit_length_bounds [OF assms] by simp_all
  then have "(of_int (2 ^ nat (bit_length n - 1)) :: rat) \<le> of_int n"
    "(of_int n :: rat) < of_int (2 ^ nat (bit_length n))"
    by (simp_all only: of_int_le_iff of_int_less_iff)
  then show "pow2 (bit_length n - 1) \<le> of_int n" "of_int n < pow2 (bit_length n)"
    using b by (simp_all add: pow2_def)
qed

lemma ilog2_bounds:
  assumes "0 < x"
  shows "pow2 (ilog2 x) \<le> x" and "x < pow2 (ilog2 x + 1)"
proof -
  obtain p q where pq: "quotient_of x = (p, q)"
    by (cases "quotient_of x")
  then have q: "0 < q" and x: "x = of_int p / of_int q"
    by (simp_all add: quotient_of_denom_pos quotient_of_div)
  have p: "0 < p"
    using assms q x by (simp add: zero_less_divide_iff)
  let ?a = "bit_length p" and ?b = "bit_length q"
  note pb = of_int_bit_length_bounds [OF p]
  note qb = of_int_bit_length_bounds [OF q]
  have qpos: "(0::rat) < of_int q"
    using q by simp
  have "x * of_int q < pow2 ?a"
    using pb(2) x qpos by simp
  also have "pow2 ?a = pow2 (?a - ?b + 1) * pow2 (?b - 1)"
    by (simp flip: pow2_add)
  also have "\<dots> \<le> pow2 (?a - ?b + 1) * of_int q"
    using qb(1) pow2_pos [of "?a - ?b + 1"] by simp
  finally have hi: "x < pow2 (?a - ?b + 1)"
    using qpos by simp
  have "pow2 (?a - ?b - 1) * of_int q < pow2 (?a - ?b - 1) * pow2 ?b"
    using qb(2) pow2_pos [of "?a - ?b - 1"] by simp
  also have "\<dots> = pow2 (?a - 1)"
    by (simp flip: pow2_add)
  also have "\<dots> \<le> x * of_int q"
    using pb(1) x qpos by simp
  finally have lo: "pow2 (?a - ?b - 1) < x"
    using qpos by simp
  show "pow2 (ilog2 x) \<le> x"
    using lo pq by (simp add: ilog2_def Let_def)
  show "x < pow2 (ilog2 x + 1)"
    using hi pq by (auto simp: ilog2_def Let_def not_le)
qed

lemma round_half_even_error: "\<bar>of_int (round_half_even y) - y\<bar> \<le> 1 / 2"
proof -
  have "of_int \<lfloor>y\<rfloor> \<le> y" "y < of_int \<lfloor>y\<rfloor> + 1"
    by linarith+
  then show ?thesis
    by (auto simp: round_half_even_def Let_def)
qed

lemma round_half_even_nearest: "\<bar>of_int (round_half_even y) - y\<bar> \<le> \<bar>of_int n - y\<bar>"
proof (cases "n = round_half_even y")
  case True
  then show ?thesis by simp
next
  case False
  then have "1 \<le> \<bar>n - round_half_even y\<bar>"
    by simp
  then have "(1::rat) \<le> \<bar>of_int n - of_int (round_half_even y)\<bar>"
    by (metis of_int_1 of_int_abs of_int_diff of_int_le_iff)
  then show ?thesis
    using round_half_even_error [of y] by linarith
qed

lemma round_half_even_tie:
  "\<bar>of_int (round_half_even y) - y\<bar> = 1 / 2 \<Longrightarrow> even (round_half_even y)"
proof -
  have "of_int \<lfloor>y\<rfloor> \<le> y" "y < of_int \<lfloor>y\<rfloor> + 1"
    by linarith+
  then show "\<bar>of_int (round_half_even y) - y\<bar> = 1 / 2 \<Longrightarrow> even (round_half_even y)"
    by (auto simp: round_half_even_def Let_def split: if_splits)
qed

lemma round_half_even_of_int: "round_half_even (of_int k) = k"
  by (simp add: round_half_even_def)

lemma rnd_eq:
  "x \<noteq> 0 \<Longrightarrow> rnd x = of_int (round_half_even (x / pow2 (ulp_exponent x))) * pow2 (ulp_exponent x)"
  by (simp add: rnd_def ulp_exponent_def Let_def)

lemma rnd_error: "\<bar>rnd x - x\<bar> \<le> pow2 (ulp_exponent x) / 2"
proof (cases "x = 0")
  case True
  then show ?thesis
    using pow2_pos [of "ulp_exponent 0"] by (simp add: rnd_def)
next
  case False
  let ?e = "ulp_exponent x"
  let ?m = "round_half_even (x / pow2 ?e)"
  have "rnd x - x = (of_int ?m - x / pow2 ?e) * pow2 ?e"
    using False pow2_pos [of ?e] by (simp add: rnd_eq field_simps)
  then have "\<bar>rnd x - x\<bar> = \<bar>of_int ?m - x / pow2 ?e\<bar> * pow2 ?e"
    using pow2_pos [of ?e] by (simp add: abs_mult)
  also have "\<dots> \<le> 1 / 2 * pow2 ?e"
    using round_half_even_error [of "x / pow2 ?e"] pow2_pos [of ?e]
    by (intro mult_right_mono) simp_all
  finally show ?thesis by simp
qed

lemma rnd_grid_nearest:
  assumes "x \<noteq> 0"
  shows "\<bar>rnd x - x\<bar> \<le> \<bar>of_int n * pow2 (ulp_exponent x) - x\<bar>"
proof -
  let ?e = "ulp_exponent x"
  let ?m = "round_half_even (x / pow2 ?e)"
  have "rnd x - x = (of_int ?m - x / pow2 ?e) * pow2 ?e"
    using assms pow2_pos [of ?e] by (simp add: rnd_eq field_simps)
  then have "\<bar>rnd x - x\<bar> = \<bar>of_int ?m - x / pow2 ?e\<bar> * pow2 ?e"
    using pow2_pos [of ?e] by (simp add: abs_mult)
  also have "\<dots> \<le> \<bar>of_int n - x / pow2 ?e\<bar> * pow2 ?e"
    using round_half_even_nearest [of "x / pow2 ?e" n] pow2_pos [of ?e]
    by (intro mult_right_mono) simp_all
  also have "\<dots> = \<bar>(of_int n - x / pow2 ?e) * pow2 ?e\<bar>"
    using pow2_pos [of ?e] by (simp add: abs_mult)
  also have "(of_int n - x / pow2 ?e) * pow2 ?e = of_int n * pow2 ?e - x"
    using pow2_pos [of ?e] by (simp add: field_simps)
  finally show ?thesis .
qed

lemma pow2_int_multiple:
  assumes "a \<le> b"
  shows "\<exists>n. of_int m * pow2 b = of_int n * pow2 a"
proof -
  define d where "d = nat (b - a)"
  have "b = int d + a"
    using assms by (simp add: d_def)
  then have "pow2 b = pow2 (int d + a)"
    by (rule arg_cong)
  also have "\<dots> = 2 ^ d * pow2 a"
    by (simp only: pow2_add pow2_nat)
  finally have "of_int m * pow2 b = of_int (m * 2 ^ d) * pow2 a"
    by simp
  then show ?thesis ..
qed

text \<open>\<open>rnd x\<close> is a double, and no double is nearer to \<open>x\<close>; a double is its own rounding.\<close>

lemma rnd_nearest:
  assumes "is_double y"
  shows "\<bar>rnd x - x\<bar> \<le> \<bar>y - x\<bar>"
proof (cases "x = 0")
  case True
  then show ?thesis by (simp add: rnd_def)
next
  case False
  obtain m e where y: "y = of_int m * pow2 e" and m: "\<bar>m\<bar> < 2 ^ 53" and e: "- 1074 \<le> e"
    using assms by (auto simp: is_double_def)
  let ?e = "ulp_exponent x"
  let ?k = "ilog2 \<bar>x\<bar>"
  show ?thesis
  proof (cases "?e \<le> e")
    case True
    then obtain n where "of_int m * pow2 e = of_int n * pow2 ?e"
      using pow2_int_multiple by blast
    then show ?thesis
      using rnd_grid_nearest [OF False, of n] y by simp
  next
    case below: False
    then have ek: "?e = ?k - 52"
      using e by (simp add: ulp_exponent_def)
    have xpos: "0 < \<bar>x\<bar>"
      using False by simp
    have low: "pow2 ?k \<le> \<bar>x\<bar>"
      using ilog2_bounds(1) [OF xpos] .
    have "\<bar>y\<bar> = of_int \<bar>m\<bar> * pow2 e"
      using pow2_pos [of e] by (simp add: y abs_mult)
    also have "\<dots> \<le> of_int \<bar>m\<bar> * pow2 (?e - 1)"
      using below by (intro mult_left_mono pow2_mono) simp_all
    also have "\<dots> < 2 ^ 53 * pow2 (?e - 1)"
    proof -
      have "(of_int \<bar>m\<bar> :: rat) < of_int (2 ^ 53)"
        using m by (simp only: of_int_less_iff)
      then show ?thesis
        using pow2_pos [of "?e - 1"] by simp
    qed
    also have "\<dots> = pow2 (int 53 + (?e - 1))"
      by (simp only: pow2_add pow2_nat)
    also have "int 53 + (?e - 1) = ?k"
      by (simp add: ek)
    finally have ylt: "\<bar>y\<bar> < pow2 ?k" .
    have "pow2 ?k = of_int (2 ^ 52) * pow2 ?e"
    proof -
      have "?k = int 52 + ?e"
        by (simp add: ek)
      then have "pow2 ?k = pow2 (int 52 + ?e)"
        by (rule arg_cong)
      also have "\<dots> = 2 ^ 52 * pow2 ?e"
        by (simp only: pow2_add pow2_nat)
      finally show ?thesis
        by simp
    qed
    then have grid: "\<bar>rnd x - x\<bar> \<le> \<bar>pow2 ?k - x\<bar>" "\<bar>rnd x - x\<bar> \<le> \<bar>- pow2 ?k - x\<bar>"
      using rnd_grid_nearest [OF False, of "2 ^ 52"] rnd_grid_nearest [OF False, of "- (2 ^ 52)"]
      by simp_all
    show ?thesis
    proof (cases "0 < x")
      case True
      then show ?thesis
        using grid(1) low ylt by linarith
    next
      case False
      then show ?thesis
        using grid(2) low ylt by linarith
    qed
  qed
qed

lemma rnd_exact: "is_double x \<Longrightarrow> rnd x = x"
  using rnd_nearest [of x x] by simp

lemma rnd_is_double: "is_double (rnd x)"
proof (cases "x = 0")
  case True
  have "is_double 0"
    unfolding is_double_def by (rule exI [of _ 0], rule exI [of _ 0]) simp
  then show ?thesis
    using True by (simp add: rnd_def)
next
  case False
  let ?e = "ulp_exponent x"
  let ?m = "round_half_even (x / pow2 ?e)"
  have e: "- 1074 \<le> ?e" and ek: "ilog2 \<bar>x\<bar> - 52 \<le> ?e"
    by (simp_all add: ulp_exponent_def)
  have xpos: "0 < \<bar>x\<bar>"
    using False by simp
  have "\<bar>x\<bar> < pow2 (ilog2 \<bar>x\<bar> + 1)"
    using ilog2_bounds(2) [OF xpos] .
  also have "\<dots> \<le> pow2 (int 53 + ?e)"
    using ek by (intro pow2_mono) simp
  also have "\<dots> = 2 ^ 53 * pow2 ?e"
    by (simp only: pow2_add pow2_nat)
  finally have "\<bar>x\<bar> / pow2 ?e < 2 ^ 53"
    using pow2_pos [of ?e] by (simp add: field_simps)
  then have q: "\<bar>x / pow2 ?e\<bar> < 2 ^ 53"
    using pow2_pos [of ?e] by simp
  have "\<bar>of_int ?m :: rat\<bar> \<le> \<bar>x / pow2 ?e\<bar> + 1 / 2"
    using round_half_even_error [of "x / pow2 ?e"] by linarith
  then have "(of_int \<bar>?m\<bar> :: rat) < of_int (2 ^ 53 + 1)"
    using q by simp
  then have "\<bar>?m\<bar> < 2 ^ 53 + 1"
    by (simp only: of_int_less_iff)
  then have mb: "\<bar>?m\<bar> \<le> 2 ^ 53"
    by simp
  show ?thesis
  proof (cases "\<bar>?m\<bar> < 2 ^ 53")
    case True
    then show ?thesis
      unfolding is_double_def using e rnd_eq [OF False] by blast
  next
    case top: False
    then have "?m = 2 ^ 53 \<or> ?m = - (2 ^ 53)"
      using mb by linarith
    then have half: "?m = 2 * (?m div 2)" and small: "\<bar>?m div 2\<bar> < 2 ^ 53"
      by auto
    have "(of_int ?m :: rat) = of_int (2 * (?m div 2))"
      using half by simp
    then have m2: "(of_int ?m :: rat) = 2 * of_int (?m div 2)"
      by simp
    have "pow2 (?e + 1) = pow2 ?e * pow2 1"
      by (rule pow2_add)
    then have p1: "pow2 (?e + 1) = 2 * pow2 ?e"
      by (simp add: pow2_def)
    have "rnd x = of_int (?m div 2) * pow2 (?e + 1)"
      by (simp add: rnd_eq [OF False] m2 p1)
    then show ?thesis
      unfolding is_double_def using e small
      by (intro exI [of _ "?m div 2"] exI [of _ "?e + 1"]) simp
  qed
qed

text \<open>
  Rounding is monotone, and its error is at most the fraction \<open>2 ^ 53\<close> of the number
  rounded, or half the smallest subnormal number.
\<close>

lemma rnd_mono:
  assumes "x \<le> y"
  shows "rnd x \<le> rnd y"
proof (rule ccontr)
  assume "\<not> rnd x \<le> rnd y"
  then have lt: "rnd y < rnd x"
    by simp
  have a: "\<bar>rnd x - x\<bar> \<le> \<bar>rnd y - x\<bar>"
    by (rule rnd_nearest [OF rnd_is_double])
  have b: "\<bar>rnd y - y\<bar> \<le> \<bar>rnd x - y\<bar>"
    by (rule rnd_nearest [OF rnd_is_double])
  have "x = y"
    using a b lt assms by linarith
  then show False
    using lt by simp
qed

lemma rnd_rel_error: "\<bar>rnd x - x\<bar> \<le> \<bar>x\<bar> / 2 ^ 53 + pow2 (- 1075)"
proof (cases "x = 0")
  case True
  then show ?thesis
    using pow2_pos [of "- 1075"] by (simp add: rnd_def)
next
  case False
  then have pos: "0 < \<bar>x\<bar>"
    by simp
  let ?k = "ilog2 \<bar>x\<bar>"
  have k: "pow2 ?k \<le> \<bar>x\<bar>"
    using ilog2_bounds(1) [OF pos] .
  have e: "\<bar>rnd x - x\<bar> \<le> pow2 (ulp_exponent x) / 2"
    by (rule rnd_error)
  show ?thesis
  proof (cases "- 1074 \<le> ?k - 52")
    case True
    then have "ulp_exponent x = ?k + (- 52)"
      by (simp add: ulp_exponent_def)
    then have "pow2 (ulp_exponent x) = pow2 ?k * pow2 (- 52)"
      by (simp only: pow2_add)
    also have "pow2 (- 52) = 1 / 2 ^ 52"
      by (simp add: pow2_def)
    finally have "pow2 (ulp_exponent x) / 2 = pow2 ?k / 2 ^ 53"
      by simp
    also have "\<dots> \<le> \<bar>x\<bar> / 2 ^ 53"
      using k by (simp add: divide_right_mono)
    finally have "\<bar>rnd x - x\<bar> \<le> \<bar>x\<bar> / 2 ^ 53"
      using e by simp
    then show ?thesis
      using pow2_pos [of "- 1075"] by linarith
  next
    case False
    then have u: "ulp_exponent x = - 1075 + 1"
      by (simp add: ulp_exponent_def)
    have "pow2 (ulp_exponent x) = pow2 (- 1075) * pow2 1"
      unfolding u by (rule pow2_add)
    also have "pow2 1 = 2"
      by (simp add: pow2_def)
    finally have "pow2 (ulp_exponent x) / 2 = pow2 (- 1075)"
      by simp
    moreover have "0 \<le> \<bar>x\<bar> / 2 ^ 53"
      by simp
    ultimately show ?thesis
      using e by linarith
  qed
qed

lemma pow2_tiny: "pow2 (- 1075) \<le> 1 / 2 ^ 100"
proof -
  have "pow2 (- 1075) \<le> pow2 (- 100)"
    by (rule pow2_mono) simp
  also have "pow2 (- 100) = 1 / 2 ^ 100"
    by (simp add: pow2_def)
  finally show ?thesis .
qed

lemma two_roundings_bound:
  fixes a v y t :: rat
  assumes "e = 1 / 2 ^ 52" and "a \<le> (v + e) + (v + e) / 2 ^ 53 + t"
    and "y \<le> a * 100 + a * 100 / 2 ^ 53 + t" and "t \<le> 1 / 2 ^ 100" and "0 \<le> v"
  shows "y \<le> v * 100 + (v * 100 + 100) / 2 ^ 51"
  using assms by (simp add: field_simps)

text \<open>
  An integer below \<open>2 ^ 53\<close> in absolute value is a double, and the whole seconds of a
  clock in milliseconds are computed exactly.
\<close>

lemma is_double_of_int: "\<bar>m\<bar> < 2 ^ 53 \<Longrightarrow> is_double (of_int m)"
  unfolding is_double_def by (rule exI [of _ m], rule exI [of _ 0]) (simp add: pow2_def)

lemma rnd_of_int: "\<bar>m\<bar> < 2 ^ 53 \<Longrightarrow> rnd (of_int m) = of_int m"
  by (intro rnd_exact is_double_of_int)

lemma div_1000_bounds:
  fixes m :: int
  assumes "0 \<le> m"
  shows "0 \<le> m div 1000" and "m div 1000 \<le> m"
    and "0 \<le> m mod 1000" and "m mod 1000 \<le> 999"
proof -
  have s: "m div 1000 * 1000 + m mod 1000 = m"
    by (rule div_mult_mod_eq)
  show q: "0 \<le> m div 1000"
    using assms by (simp add: pos_imp_zdiv_nonneg_iff)
  show r: "0 \<le> m mod 1000"
    by (rule pos_mod_sign) simp
  have "m mod 1000 < 1000"
    by (rule pos_mod_bound) simp
  then show "m mod 1000 \<le> 999"
    by linarith
  show "m div 1000 \<le> m"
    using s q r by linarith
qed

lemma floor_seconds:
  assumes "0 \<le> m" and "m < 2 ^ 52"
  shows "Math_floor (fdiv (of_int m) 1000) = of_int (m div 1000)"
proof -
  let ?x = "of_int m / 1000 :: rat"
  let ?q = "m div 1000"
  note b = div_1000_bounds [OF assms(1)]
  have qb: "\<bar>?q\<bar> < 2 ^ 53"
    using b(1,2) assms(2) by simp
  have "(of_int m :: rat) = of_int (?q * 1000 + m mod 1000)"
    by (simp only: div_mult_mod_eq)
  then have split: "(of_int m :: rat) = of_int ?q * 1000 + of_int (m mod 1000)"
    by (simp only: of_int_add of_int_mult of_int_numeral)
  have "(0 :: rat) \<le> of_int (m mod 1000)" "(of_int (m mod 1000) :: rat) \<le> 999"
    using b(3,4) by (simp_all only: of_int_0_le_iff of_int_le_numeral_iff)
  then have lo: "of_int ?q \<le> ?x" and hi: "?x \<le> of_int ?q + 999 / 1000"
    using split by simp_all
  have "(of_int m :: rat) < 2 ^ 52"
    using assms(2) by (metis of_int_less_numeral_power_cancel_iff)
  then have xb: "?x < 2 ^ 52 / 1000"
    by simp
  have x0: "0 \<le> ?x"
    using assms(1) by simp
  have "rnd (of_int ?q) \<le> rnd ?x"
    using lo by (rule rnd_mono)
  then have low: "of_int ?q \<le> rnd ?x"
    using rnd_of_int [OF qb] by simp
  have "\<bar>rnd ?x - ?x\<bar> \<le> \<bar>?x\<bar> / 2 ^ 53 + pow2 (- 1075)"
    by (rule rnd_rel_error)
  then have e: "rnd ?x \<le> ?x + ?x / 2 ^ 53 + pow2 (- 1075)"
    using x0 by linarith
  have "?x / 2 ^ 53 < 1 / 2000"
    using xb by simp
  moreover have "pow2 (- 1075) < 1 / 2000"
    using pow2_tiny by simp
  ultimately have high: "rnd ?x < of_int ?q + 1"
    using e hi by linarith
  have "\<lfloor>rnd ?x\<rfloor> = ?q"
    using low high by (simp add: floor_unique)
  then show ?thesis
    by (simp add: Math_floor_def fdiv_def)
qed

section \<open>Properties of the pricing engine\<close>

lemma round_half_even_nonneg: "0 \<le> x \<Longrightarrow> 0 \<le> round_half_even x"
  by (auto simp: round_half_even_def Let_def)

lemma rnd_nonneg: "0 \<le> x \<Longrightarrow> 0 \<le> rnd x"
proof -
  assume x: "0 \<le> x"
  have "0 \<le> of_int (round_half_even (x / pow2 e)) * pow2 e" for e
  proof -
    have "0 \<le> x / pow2 e"
      using x pow2_pos [of e] by simp
    then have "0 \<le> round_half_even (x / pow2 e)"
      by (rule round_half_even_nonneg)
    then show ?thesis
      using pow2_pos [of e] by simp
  qed
  then show ?thesis
    by (simp add: rnd_def Let_def)
qed

lemma roundTo2_nonneg: "0 \<le> v \<Longrightarrow> 0 \<le> roundTo2 v"
proof -
  assume "0 \<le> v"
  have "0 \<le> Math_round (fmul (fadd v Number_EPSILON) 100)"
  proof -
    have "0 \<le> v + Number_EPSILON"
      using \<open>0 \<le> v\<close> pow2_pos [of "- 52"] by (simp add: Number_EPSILON_def)
    then have "0 \<le> fadd v Number_EPSILON"
      unfolding fadd_def by (rule rnd_nonneg)
    then have "0 \<le> fmul (fadd v Number_EPSILON) 100"
      unfolding fmul_def by (intro rnd_nonneg) simp
    then show ?thesis
      by (simp add: Math_round_def)
  qed
  then show ?thesis
    unfolding roundTo2_def fdiv_def by (intro rnd_nonneg) simp
qed

text \<open>
  The code's rounding against the rounding of the amount itself. \<open>roundTo2\<close> rounds the
  double \<open>(v + Number.EPSILON) * 100\<close> to the nearest integer, a tie going up. For a
  non-negative double \<open>v\<close> that number is never below the half cent that the amount has
  reached (the half cents are doubles and rounding is monotone), and it exceeds the amount
  in cents by the nudge and two rounding errors at most.
\<close>

lemma roundTo2_cents:
  "roundTo2 v = cents \<lfloor>fmul (fadd v Number_EPSILON) 100 + 1 / 2\<rfloor>"
  by (simp add: roundTo2_def Math_round_def fdiv_def cents_def)

lemma half_integer_is_double:
  assumes "0 \<le> r" and "r \<le> 2 ^ 51"
  shows "is_double (of_int r - 1 / 2)"
proof -
  have "of_int r - 1 / 2 = (of_int (2 * r - 1) :: rat) * pow2 (- 1)"
    by (simp add: pow2_def field_simps)
  moreover have "\<bar>2 * r - 1\<bar> < 2 ^ 53"
    using assms by simp
  ultimately show ?thesis
    unfolding is_double_def by (intro exI [of _ "2 * r - 1"] exI [of _ "- 1"]) simp
qed

lemma scaled_lower:
  assumes "is_double v" and "0 \<le> v" and "v * 100 < 2 ^ 50"
  shows "round_half_away (v * 100) \<le> \<lfloor>fmul (fadd v Number_EPSILON) 100 + 1 / 2\<rfloor>"
proof -
  let ?r = "\<lfloor>v * 100 + 1 / 2\<rfloor>"
  let ?v' = "fadd v Number_EPSILON"
  let ?y = "fmul ?v' 100"
  have r: "round_half_away (v * 100) = ?r"
    using assms(2) by (simp add: round_half_away_def)
  have r0: "0 \<le> ?r"
    using assms(2) by simp
  have "of_int ?r \<le> v * 100 + 1 / 2"
    by (rule of_int_floor_le)
  then have rle: "(of_int ?r :: rat) < 2 ^ 50 + 1"
    using assms(3) by linarith
  have "(of_int ?r :: rat) < of_int (2 ^ 50 + 1)"
    using rle by simp
  then have "?r < 2 ^ 50 + 1"
    by (simp only: of_int_less_iff)
  then have r51: "?r \<le> 2 ^ 51"
    by simp
  have d: "is_double (of_int ?r - 1 / 2)"
    using r0 r51 by (rule half_integer_is_double)
  have "0 < Number_EPSILON"
    by (simp add: Number_EPSILON_def pow2_pos)
  then have "rnd v \<le> rnd (v + Number_EPSILON)"
    by (intro rnd_mono) simp
  then have v': "v \<le> ?v'"
    using rnd_exact [OF assms(1)] by (simp add: fadd_def)
  have "of_int ?r - 1 / 2 \<le> v * 100"
    using of_int_floor_le [of "v * 100 + 1 / 2"] by linarith
  also have "\<dots> \<le> ?v' * 100"
    using v' by simp
  finally have "rnd (of_int ?r - 1 / 2) \<le> rnd (?v' * 100)"
    by (rule rnd_mono)
  then have "of_int ?r - 1 / 2 \<le> ?y"
    using rnd_exact [OF d] by (simp add: fmul_def)
  then have "of_int ?r \<le> ?y + 1 / 2"
    by linarith
  then have "?r \<le> \<lfloor>?y + 1 / 2\<rfloor>"
    by (simp only: le_floor_iff)
  then show ?thesis
    using r by simp
qed

lemma scaled_upper:
  assumes "0 \<le> v"
  shows "fmul (fadd v Number_EPSILON) 100 \<le> v * 100 + (v * 100 + 100) / 2 ^ 51"
proof -
  let ?v' = "fadd v Number_EPSILON"
  let ?y = "fmul ?v' 100"
  have eps: "Number_EPSILON = 1 / 2 ^ 52"
    by (simp add: Number_EPSILON_def pow2_def)
  have s0: "0 \<le> v + Number_EPSILON"
    using assms(1) eps by simp
  then have v'0: "0 \<le> ?v'"
    unfolding fadd_def by (rule rnd_nonneg)
  have e1: "\<bar>?v' - (v + Number_EPSILON)\<bar> \<le> \<bar>v + Number_EPSILON\<bar> / 2 ^ 53 + pow2 (- 1075)"
    unfolding fadd_def by (rule rnd_rel_error)
  have e2: "\<bar>?y - ?v' * 100\<bar> \<le> \<bar>?v' * 100\<bar> / 2 ^ 53 + pow2 (- 1075)"
    unfolding fmul_def by (rule rnd_rel_error)
  have a1: "\<bar>v + Number_EPSILON\<bar> = v + Number_EPSILON"
    using s0 by simp
  have a2: "\<bar>?v' * 100\<bar> = ?v' * 100"
    using v'0 by simp
  have b1: "?v' \<le> (v + Number_EPSILON) + (v + Number_EPSILON) / 2 ^ 53 + pow2 (- 1075)"
    using e1 unfolding a1 by linarith
  have b2: "?y \<le> ?v' * 100 + ?v' * 100 / 2 ^ 53 + pow2 (- 1075)"
    using e2 unfolding a2 by linarith
  show ?thesis
    using eps b1 b2 pow2_tiny assms by (rule two_roundings_bound)
qed

lemma roundTo2_near_exact:
  assumes "is_double v" and "0 \<le> v" and "v * 100 < 2 ^ 50"
  shows "roundTo2 v = round2_exact v \<or> roundTo2 v = cents (round_half_away (v * 100) + 1)"
    and "(v * 100 + 100) / 2 ^ 51 < of_int (round_half_away (v * 100)) + 1 / 2 - v * 100
           \<Longrightarrow> roundTo2 v = round2_exact v"
proof -
  let ?r = "round_half_away (v * 100)"
  let ?y = "fmul (fadd v Number_EPSILON) 100"
  let ?n = "\<lfloor>?y + 1 / 2\<rfloor>"
  have r: "?r = \<lfloor>v * 100 + 1 / 2\<rfloor>"
    using assms(2) by (simp add: round_half_away_def)
  have lo: "?r \<le> ?n"
    using assms by (rule scaled_lower)
  have up: "?y \<le> v * 100 + (v * 100 + 100) / 2 ^ 51"
    using assms(2) by (rule scaled_upper)
  have quarter: "(v * 100 + 100) / 2 ^ 51 < 1"
    using assms(2,3) by (simp add: field_simps)
  have "v * 100 + 1 / 2 < of_int ?r + 1"
    unfolding r by linarith
  then have "?y + 1 / 2 < of_int ?r + 2"
    using up quarter by linarith
  then have "?y + 1 / 2 < of_int (?r + 2)"
    by simp
  then have "?n < ?r + 2"
    by (simp only: floor_less_iff)
  then have "?n = ?r \<or> ?n = ?r + 1"
    using lo by linarith
  then show "roundTo2 v = round2_exact v \<or> roundTo2 v = cents (?r + 1)"
    by (auto simp: roundTo2_cents round2_exact_def)
  assume gap: "(v * 100 + 100) / 2 ^ 51 < of_int ?r + 1 / 2 - v * 100"
  then have "?y + 1 / 2 < of_int ?r + 1"
    using up by linarith
  then have "?y + 1 / 2 < of_int (?r + 1)"
    by simp
  then have "?n < ?r + 1"
    by (simp only: floor_less_iff)
  then have "?n = ?r"
    using lo by linarith
  then show "roundTo2 v = round2_exact v"
    by (simp add: roundTo2_cents round2_exact_def)
qed

text \<open>Two well-known facts of binary64 arithmetic, as a check of the model.\<close>

lemma binary64_one_tenth: "rnd (1 / 10) = 3602879701896397 / 2 ^ 55"
  by code_simp

lemma binary64_sum_of_tenths:
  "fadd (rnd (1 / 10)) (rnd (2 / 10)) = rnd (3 / 10) + 1 / 2 ^ 54"
  by code_simp

lemma items_calculatePricing:
  "items (calculatePricing cart) = map calculateLineTotal cart"
  by (simp add: calculatePricing_def Let_def)

lemma lineTotals_calculatePricing:
  "map lineTotal (items (calculatePricing cart)) =
     map (\<lambda>i. roundTo2 (fmul (price i) (quantity i))) cart"
  by (simp add: items_calculatePricing calculateLineTotal_def)

lemma subtotal_calculatePricing:
  "subtotal (calculatePricing cart) =
     roundTo2 (foldl fadd 0 (map lineTotal (items (calculatePricing cart))))"
  by (simp add: calculatePricing_def Let_def foldl_map)

lemma tax_calculatePricing:
  "tax (calculatePricing cart) = roundTo2 (fmul (subtotal (calculatePricing cart)) TAX_RATE)"
  by (simp add: calculatePricing_def Let_def)

lemma total_calculatePricing:
  "total (calculatePricing cart) =
     roundTo2 (fadd (subtotal (calculatePricing cart)) (tax (calculatePricing cart)))"
  by (simp add: calculatePricing_def Let_def)

lemma foldl_fadd_nonneg:
  "0 \<le> a \<Longrightarrow> \<forall>x \<in> set xs. 0 \<le> x \<Longrightarrow> 0 \<le> foldl fadd a xs"
proof (induction xs arbitrary: a)
  case Nil
  then show ?case by simp
next
  case (Cons x xs)
  have "0 \<le> fadd a x"
    unfolding fadd_def using Cons.prems by (intro rnd_nonneg) simp
  then show ?case
    using Cons by simp
qed

text \<open>The doubles of the test vectors, computed through the rounding of each operation.\<close>

lemma vec_line_a: "roundTo2 (fmul (cents 2999) 2) = cents 5998"
  by code_simp

lemma vec_line_b: "roundTo2 (fmul (cents 999) 1) = cents 999"
  by code_simp

lemma vec_subtotal:
  "roundTo2 (fadd (fadd 0 (cents 5998)) (cents 999)) = cents 6997"
  by code_simp

lemma vec_tax: "roundTo2 (fmul (cents 6997) TAX_RATE) = cents 700"
  by code_simp

lemma vec_seven: "cents 700 = 7"
  by code_simp

lemma vec_total: "roundTo2 (fadd (cents 6997) (cents 700)) = cents 7697"
  by code_simp

lemma vec_111: "roundTo2 (fmul (cents 111) 3) = cents 333"
  by code_simp

lemma vec_111_unrounded: "fmul (cents 111) 3 = cents 333"
  by code_simp

lemma vec_tie: "roundTo2 (1 / 8) = cents 13"
  by code_simp

lemma vec_3333_line: "roundTo2 (fmul (cents 3333) 1) = cents 3333"
  by code_simp

lemma vec_3333_subtotal: "roundTo2 (fadd 0 (cents 3333)) = cents 3333"
  by code_simp

lemma vec_3333_tax: "roundTo2 (fmul (cents 3333) TAX_RATE) = cents 333"
  by code_simp

text \<open>
  The price 1.005 is the double just below the decimal: in cents it is less than 100.5,
  so that the nearest cent is 1.00, and \<open>roundTo2\<close> returns 1.01.
\<close>

lemma vec_1005: "roundTo2 (fmul (thousandths 1005) 1) = cents 101"
  by code_simp

lemma vec_1005_exact: "round2_exact (fmul (thousandths 1005) 1) = cents 100"
  by code_simp

lemma vec_1005_below: "fmul (thousandths 1005) 1 * 100 < 100 + 1 / 2"
  by code_simp

lemma cents_100_101: "cents 100 < cents 101"
  by code_simp

lemma vec_111_exact: "round2_exact (fmul (cents 111) 3) = cents 333"
  by code_simp

lemma vec_3333_tax_exact: "round2_exact (fmul (cents 3333) TAX_RATE) = cents 333"
  by code_simp

lemma vec_tie_exact: "round2_exact (1 / 8) = cents 13"
  by code_simp

lemma vec_111_gap:
  "(fmul (cents 111) 3 * 100 + 100) / 2 ^ 51
     < of_int (round_half_away (fmul (cents 111) 3 * 100)) + 1 / 2 - fmul (cents 111) 3 * 100"
  by code_simp

lemma vec_111_range: "0 \<le> fmul (cents 111) 3 \<and> fmul (cents 111) 3 * 100 < 2 ^ 50"
  by code_simp

lemma money_depends_on_products:
  assumes "map (\<lambda>i. fmul (price i) (quantity i)) xs = map (\<lambda>i. fmul (price i) (quantity i)) ys"
  shows "map lineTotal (items (calculatePricing xs)) = map lineTotal (items (calculatePricing ys))"
    and "subtotal (calculatePricing xs) = subtotal (calculatePricing ys)"
    and "tax (calculatePricing xs) = tax (calculatePricing ys)"
    and "total (calculatePricing xs) = total (calculatePricing ys)"
proof -
  have "map roundTo2 (map (\<lambda>i. fmul (price i) (quantity i)) xs) =
        map roundTo2 (map (\<lambda>i. fmul (price i) (quantity i)) ys)"
    using assms by simp
  then show l: "map lineTotal (items (calculatePricing xs)) =
                map lineTotal (items (calculatePricing ys))"
    by (simp add: lineTotals_calculatePricing comp_def)
  then show s: "subtotal (calculatePricing xs) = subtotal (calculatePricing ys)"
    by (simp add: subtotal_calculatePricing)
  then show t: "tax (calculatePricing xs) = tax (calculatePricing ys)"
    by (simp add: tax_calculatePricing)
  show "total (calculatePricing xs) = total (calculatePricing ys)"
    using s t by (simp add: total_calculatePricing)
qed

text \<open>
  Claim C6. For the cart of 2 units at 29.99 and 1 unit at 9.99, \<open>calculatePricing\<close>
  returns the line totals 59.98 and 9.99, the subtotal 69.97, the tax 7.00 and the total
  76.97, each the double nearest to the decimal (\<open>cents 5998\<close> and so on; \<open>cents 700\<close> is
  the number 7), whatever the product identifiers and names are. For every cart the tax is \<open>roundTo2 (subtotal * 0.10)\<close> and the total is
  \<open>roundTo2 (subtotal + tax)\<close>. The amounts depend on the products price times quantity
  only: two carts with the same products have the same line totals, subtotal, tax and total.
  A validated cart item has the four fields of the schema and no other (the schema drops
  unknown keys), so a total supplied by the client never reaches the pricing engine.
\<close>

theorem calculatePricing_determinism:
  "map lineTotal (items (calculatePricing
      [\<lparr>productId = p1, name = n1, price = cents 2999, quantity = 2\<rparr>,
       \<lparr>productId = p2, name = n2, price = cents 999, quantity = 1\<rparr>]))
     = [cents 5998, cents 999]
   \<and> subtotal (calculatePricing
      [\<lparr>productId = p1, name = n1, price = cents 2999, quantity = 2\<rparr>,
       \<lparr>productId = p2, name = n2, price = cents 999, quantity = 1\<rparr>])
     = cents 6997
   \<and> tax (calculatePricing
      [\<lparr>productId = p1, name = n1, price = cents 2999, quantity = 2\<rparr>,
       \<lparr>productId = p2, name = n2, price = cents 999, quantity = 1\<rparr>])
     = cents 700
   \<and> cents 700 = 7
   \<and> total (calculatePricing
      [\<lparr>productId = p1, name = n1, price = cents 2999, quantity = 2\<rparr>,
       \<lparr>productId = p2, name = n2, price = cents 999, quantity = 1\<rparr>])
     = cents 7697
   \<and> tax (calculatePricing cart) = roundTo2 (fmul (subtotal (calculatePricing cart)) TAX_RATE)
   \<and> total (calculatePricing cart)
     = roundTo2 (fadd (subtotal (calculatePricing cart)) (tax (calculatePricing cart)))
   \<and> (map (\<lambda>i. fmul (price i) (quantity i)) xs = map (\<lambda>i. fmul (price i) (quantity i)) ys
      \<longrightarrow> map lineTotal (items (calculatePricing xs)) = map lineTotal (items (calculatePricing ys))
        \<and> subtotal (calculatePricing xs) = subtotal (calculatePricing ys)
        \<and> tax (calculatePricing xs) = tax (calculatePricing ys)
        \<and> total (calculatePricing xs) = total (calculatePricing ys))"
proof -
  let ?r = "calculatePricing
      [\<lparr>productId = p1, name = n1, price = cents 2999, quantity = 2\<rparr>,
       \<lparr>productId = p2, name = n2, price = cents 999, quantity = 1\<rparr>]"
  have l: "map lineTotal (items ?r) = [cents 5998, cents 999]"
    by (simp add: lineTotals_calculatePricing vec_line_a vec_line_b)
  have s: "subtotal ?r = cents 6997"
    by (simp add: subtotal_calculatePricing l vec_subtotal)
  have t: "tax ?r = cents 700"
    by (simp add: tax_calculatePricing s vec_tax)
  have u: "total ?r = cents 7697"
    by (simp add: total_calculatePricing s t vec_total)
  show ?thesis
    using l s t u vec_seven tax_calculatePricing [of cart] total_calculatePricing [of cart]
      money_depends_on_products [of xs ys]
    by blast
qed

theorem calculatePricing_determinism_witness:
  "map (\<lambda>i. fmul (price i) (quantity i))
       [\<lparr>productId = ''p1'', name = ''Widget'', price = 2, quantity = 3\<rparr>]
     = map (\<lambda>i. fmul (price i) (quantity i))
       [\<lparr>productId = ''p2'', name = ''Cable'', price = 3, quantity = 2\<rparr>]
   \<and> total (calculatePricing [\<lparr>productId = ''p1'', name = ''Widget'', price = 2, quantity = 3\<rparr>])
     = total (calculatePricing [\<lparr>productId = ''p2'', name = ''Cable'', price = 3, quantity = 2\<rparr>])"
proof -
  have h: "map (\<lambda>i. fmul (price i) (quantity i))
       [\<lparr>productId = ''p1'', name = ''Widget'', price = 2, quantity = 3\<rparr>]
     = map (\<lambda>i. fmul (price i) (quantity i))
       [\<lparr>productId = ''p2'', name = ''Cable'', price = 3, quantity = 2\<rparr>]"
    by (simp add: fmul_def)
  show ?thesis
    using h calculatePricing_determinism
      [of p1 n1 p2 n2 cart
          "[\<lparr>productId = ''p1'', name = ''Widget'', price = 2, quantity = 3\<rparr>]"
          "[\<lparr>productId = ''p2'', name = ''Cable'', price = 3, quantity = 2\<rparr>]"]
    by blast
qed

lemma is_double_zero: "is_double 0"
  unfolding is_double_def by (rule exI [of _ 0], rule exI [of _ 0]) simp

lemma foldl_fadd_is_double: "is_double a \<Longrightarrow> is_double (foldl fadd a xs)"
proof (induction xs arbitrary: a)
  case Nil
  then show ?case by simp
next
  case (Cons x xs)
  have "is_double (fadd a x)"
    unfolding fadd_def by (rule rnd_is_double)
  then show ?case
    using Cons.IH by simp
qed

lemma stage_amounts_nonneg:
  assumes "\<forall>i \<in> set cart. 0 \<le> price i \<and> 0 \<le> quantity i"
  shows "\<forall>i \<in> set cart. 0 \<le> fmul (price i) (quantity i)"
    and "0 \<le> foldl fadd 0 (map lineTotal (items (calculatePricing cart)))"
    and "0 \<le> fmul (subtotal (calculatePricing cart)) TAX_RATE"
    and "0 \<le> fadd (subtotal (calculatePricing cart)) (tax (calculatePricing cart))"
proof -
  let ?r = "calculatePricing cart"
  have prod: "0 \<le> fmul (price i) (quantity i)" if "i \<in> set cart" for i
    unfolding fmul_def using assms that by (intro rnd_nonneg) simp
  then show "\<forall>i \<in> set cart. 0 \<le> fmul (price i) (quantity i)"
    by simp
  have "\<forall>x \<in> set (map lineTotal (items ?r)). 0 \<le> x"
    by (auto simp: lineTotals_calculatePricing prod roundTo2_nonneg)
  then show sum: "0 \<le> foldl fadd 0 (map lineTotal (items ?r))"
    by (intro foldl_fadd_nonneg) simp_all
  then have sub0: "0 \<le> subtotal ?r"
    by (simp add: subtotal_calculatePricing roundTo2_nonneg)
  have rate: "0 \<le> TAX_RATE"
    unfolding TAX_RATE_def by (intro rnd_nonneg) simp
  show tx: "0 \<le> fmul (subtotal ?r) TAX_RATE"
    unfolding fmul_def using sub0 rate by (intro rnd_nonneg) simp
  then have tx0: "0 \<le> tax ?r"
    by (simp only: tax_calculatePricing [of cart] roundTo2_nonneg)
  show "0 \<le> fadd (subtotal ?r) (tax ?r)"
    unfolding fadd_def using sub0 tx0 by (intro rnd_nonneg) simp
qed

text \<open>
  Claim C7, as the code has it. Rounding to two decimal places is applied at every stage
  and never only at the end: each line total is \<open>roundTo2\<close> of price times quantity, the
  subtotal is \<open>roundTo2\<close> of the sum of the rounded line totals, the tax is \<open>roundTo2\<close> of the
  rounded subtotal times the tax rate, and the total is rounded again. The amounts that
  are rounded are doubles, and for a cart without a negative price or quantity they are
  not negative. \<open>roundTo2\<close> is not the rounding of the amount half away from zero,
  \<open>round2_exact\<close>: for a non-negative double below \<open>2 ^ 50\<close> cents it returns that rounding
  or one cent more, and it returns that rounding whenever the amount lies further below
  the next half cent than the nudge by \<open>Number.EPSILON\<close> and the rounding errors can carry
  it, \<open>(v * 100 + 100) / 2 ^ 51\<close> cents. The price 1.005, a double just below the half cent,
  is rounded up to 1.01 where the rounding of the amount gives 1.00; the exact tie 0.125
  goes to 0.13 under both. In particular 3 units at 1.11 give the line total 3.33, and
  1 unit at 33.33 gives the tax 3.33, and both are the rounding of the amount as well.
\<close>

theorem rounding_at_every_stage:
  "map lineTotal (items (calculatePricing cart))
       = map (\<lambda>i. roundTo2 (fmul (price i) (quantity i))) cart
   \<and> subtotal (calculatePricing cart)
       = roundTo2 (foldl fadd 0 (map lineTotal (items (calculatePricing cart))))
   \<and> tax (calculatePricing cart)
       = roundTo2 (fmul (subtotal (calculatePricing cart)) TAX_RATE)
   \<and> total (calculatePricing cart)
       = roundTo2 (fadd (subtotal (calculatePricing cart)) (tax (calculatePricing cart)))
   \<and> is_double (fmul a b) \<and> is_double (fadd a b) \<and> is_double (foldl fadd 0 ys)
   \<and> ((\<forall>i \<in> set cart. 0 \<le> price i \<and> 0 \<le> quantity i) \<longrightarrow>
        (\<forall>i \<in> set cart. 0 \<le> fmul (price i) (quantity i))
        \<and> 0 \<le> foldl fadd 0 (map lineTotal (items (calculatePricing cart)))
        \<and> 0 \<le> fmul (subtotal (calculatePricing cart)) TAX_RATE
        \<and> 0 \<le> fadd (subtotal (calculatePricing cart)) (tax (calculatePricing cart)))
   \<and> (is_double v \<and> 0 \<le> v \<and> v * 100 < 2 ^ 50 \<longrightarrow>
        (roundTo2 v = round2_exact v \<or> roundTo2 v = cents (round_half_away (v * 100) + 1))
        \<and> ((v * 100 + 100) / 2 ^ 51 < of_int (round_half_away (v * 100)) + 1 / 2 - v * 100
             \<longrightarrow> roundTo2 v = round2_exact v))
   \<and> roundTo2 (fmul (thousandths 1005) 1) = cents 101
   \<and> round2_exact (fmul (thousandths 1005) 1) = cents 100
   \<and> roundTo2 (1 / 8) = cents 13
   \<and> round2_exact (1 / 8) = cents 13
   \<and> map lineTotal (items (calculatePricing
         [\<lparr>productId = p, name = n, price = cents 111, quantity = 3\<rparr>]))
       = [cents 333]
   \<and> round2_exact (fmul (cents 111) 3) = cents 333
   \<and> tax (calculatePricing
         [\<lparr>productId = p, name = n, price = cents 3333, quantity = 1\<rparr>])
       = cents 333
   \<and> round2_exact (fmul (cents 3333) TAX_RATE) = cents 333"
proof -
  have stages: "map lineTotal (items (calculatePricing cart))
       = map (\<lambda>i. roundTo2 (fmul (price i) (quantity i))) cart"
    "subtotal (calculatePricing cart)
       = roundTo2 (foldl fadd 0 (map lineTotal (items (calculatePricing cart))))"
    "tax (calculatePricing cart)
       = roundTo2 (fmul (subtotal (calculatePricing cart)) TAX_RATE)"
    "total (calculatePricing cart)
       = roundTo2 (fadd (subtotal (calculatePricing cart)) (tax (calculatePricing cart)))"
    by (simp_all add: calculatePricing_def calculateLineTotal_def Let_def foldl_map)
  have e1: "roundTo2 (fmul (cents 111) 3) = cents 333"
    and e2: "roundTo2 (fmul (cents 3333) 1) = cents 3333"
    and e3: "roundTo2 (fadd 0 (cents 3333)) = cents 3333"
    and e4: "roundTo2 (fmul (cents 3333) TAX_RATE) = cents 333"
    and e5: "roundTo2 (fmul (thousandths 1005) 1) = cents 101"
    and e6: "roundTo2 (1 / 8) = cents 13"
    by code_simp+
  have v1: "map lineTotal (items (calculatePricing
             [\<lparr>productId = p, name = n, price = cents 111, quantity = 3\<rparr>]))
           = [cents 333]"
    by (simp add: calculatePricing_def calculateLineTotal_def Let_def e1)
  have v2: "tax (calculatePricing
             [\<lparr>productId = p, name = n, price = cents 3333, quantity = 1\<rparr>])
           = cents 333"
    by (simp add: calculatePricing_def calculateLineTotal_def Let_def e2 e3 e4)
  have d: "is_double (fmul a b)" "is_double (fadd a b)" "is_double (foldl fadd 0 ys)"
    by (simp_all add: fmul_def fadd_def rnd_is_double foldl_fadd_is_double is_double_zero)
  have policy: "is_double v \<and> 0 \<le> v \<and> v * 100 < 2 ^ 50 \<longrightarrow>
        (roundTo2 v = round2_exact v \<or> roundTo2 v = cents (round_half_away (v * 100) + 1))
        \<and> ((v * 100 + 100) / 2 ^ 51 < of_int (round_half_away (v * 100)) + 1 / 2 - v * 100
             \<longrightarrow> roundTo2 v = round2_exact v)"
    using roundTo2_near_exact [of v] by blast
  have nonneg: "(\<forall>i \<in> set cart. 0 \<le> price i \<and> 0 \<le> quantity i) \<longrightarrow>
        (\<forall>i \<in> set cart. 0 \<le> fmul (price i) (quantity i))
        \<and> 0 \<le> foldl fadd 0 (map lineTotal (items (calculatePricing cart)))
        \<and> 0 \<le> fmul (subtotal (calculatePricing cart)) TAX_RATE
        \<and> 0 \<le> fadd (subtotal (calculatePricing cart)) (tax (calculatePricing cart))"
    using stage_amounts_nonneg [of cart] by blast
  show ?thesis
    by (intro conjI stages d nonneg policy e5 vec_1005_exact e6 vec_tie_exact
        v1 vec_111_exact v2 vec_3333_tax_exact)
qed

theorem rounding_at_every_stage_witness:
  "0 \<le> price \<lparr>productId = ''p1'', name = ''A'', price = 1 / 8, quantity = 1\<rparr>
   \<and> 0 \<le> quantity \<lparr>productId = ''p1'', name = ''A'', price = 1 / 8, quantity = 1\<rparr>
   \<and> 0 \<le> fmul (subtotal (calculatePricing
              [\<lparr>productId = ''p1'', name = ''A'', price = 1 / 8, quantity = 1\<rparr>])) TAX_RATE
   \<and> is_double (fmul (cents 111) 3)
   \<and> 0 \<le> fmul (cents 111) 3
   \<and> fmul (cents 111) 3 * 100 < 2 ^ 50
   \<and> (fmul (cents 111) 3 * 100 + 100) / 2 ^ 51
        < of_int (round_half_away (fmul (cents 111) 3 * 100)) + 1 / 2 - fmul (cents 111) 3 * 100
   \<and> roundTo2 (fmul (cents 111) 3) = round2_exact (fmul (cents 111) 3)"
proof -
  have h: "\<forall>i \<in> set [\<lparr>productId = ''p1'', name = ''A'', price = 1 / 8, quantity = 1\<rparr>].
       0 \<le> price i \<and> 0 \<le> quantity i"
    by simp
  have a: "0 \<le> price \<lparr>productId = ''p1'', name = ''A'', price = 1 / 8, quantity = 1\<rparr>"
    and b: "0 \<le> quantity \<lparr>productId = ''p1'', name = ''A'', price = 1 / 8, quantity = 1\<rparr>"
    by simp_all
  have c: "is_double (fmul (cents 111) 3)"
    unfolding fmul_def by (rule rnd_is_double)
  note r = vec_111_range [THEN conjunct1] vec_111_range [THEN conjunct2]
  note t = rounding_at_every_stage
      [where cart = "[\<lparr>productId = ''p1'', name = ''A'', price = 1 / 8, quantity = 1\<rparr>]"
        and v = "fmul (cents 111) 3"]
  have taxed: "0 \<le> fmul (subtotal (calculatePricing
              [\<lparr>productId = ''p1'', name = ''A'', price = 1 / 8, quantity = 1\<rparr>])) TAX_RATE"
    using t h by blast
  have same: "roundTo2 (fmul (cents 111) 3) = round2_exact (fmul (cents 111) 3)"
    using t c r vec_111_gap by blast
  show ?thesis
    by (intro conjI a b taxed c r vec_111_gap same)
qed

text \<open>
  The claim as the specification states it fails: for the valid item of 1 unit at the
  price 1.005 the amount of the line is, in cents, less than 100.5, so that its rounding
  half away from zero (and its nearest cent under any tie rule) is 1.00; the line total
  that \<open>calculatePricing\<close> returns is 1.01.
\<close>

theorem rounding_above_half_away_counterexample:
  "map lineTotal (items (calculatePricing
       [\<lparr>productId = ''p1'', name = ''A'', price = thousandths 1005, quantity = 1\<rparr>]))
     = [cents 101]
   \<and> fmul (thousandths 1005) 1 * 100 < 100 + 1 / 2
   \<and> round2_exact (fmul (thousandths 1005) 1) = cents 100
   \<and> cents 100 < cents 101"
proof (intro conjI)
  have "roundTo2 (fmul (thousandths 1005) 1) = cents 101"
    by code_simp
  then show "map lineTotal (items (calculatePricing
       [\<lparr>productId = ''p1'', name = ''A'', price = thousandths 1005, quantity = 1\<rparr>]))
     = [cents 101]"
    by (simp add: calculatePricing_def calculateLineTotal_def Let_def)
  show "fmul (thousandths 1005) 1 * 100 < 100 + 1 / 2"
    by (rule vec_1005_below)
  show "round2_exact (fmul (thousandths 1005) 1) = cents 100"
    by (rule vec_1005_exact)
  show "cents 100 < cents 101"
    by (rule cents_100_101)
qed

section \<open>Properties of the order service\<close>

lemma send_GetCommand_eq:
  "send_GetCommand k w =
     (if faults w (calls w) then Inl (Error ''DynamoDB request failed'') else Inr (table w k),
      w\<lparr>calls := Suc (calls w)\<rparr>)"
  by (simp add: send_GetCommand_def next_fault_def)

lemma getExistingOrder_eq:
  "getExistingOrder c w =
     (if faults w (calls w) then Inl (Error ''DynamoDB request failed'')
      else Inr (map_option mapRecordToOrder (table w c)),
      w\<lparr>calls := Suc (calls w)\<rparr>)"
  by (simp add: getExistingOrder_def send_GetCommand_eq split: option.splits)

lemma send_PutCommand_eq:
  "send_PutCommand k item w =
     (if faults w (calls w) then (Inl (Error ''DynamoDB request failed''), w\<lparr>calls := Suc (calls w)\<rparr>)
      else if table w k = None
      then (Inr (), w\<lparr>calls := Suc (calls w), table := (table w)(k \<mapsto> item)\<rparr>)
      else (Inl ConditionalCheckFailedException, w\<lparr>calls := Suc (calls w)\<rparr>))"
  by (auto simp: send_PutCommand_def next_fault_def split: option.splits)

lemma send_UpdateCommand_eq:
  "send_UpdateCommand k sets w =
     (if faults w (calls w) then (Inl (Error ''DynamoDB request failed''), w\<lparr>calls := Suc (calls w)\<rparr>)
      else (Inr (), w\<lparr>calls := Suc (calls w),
                      table := (table w)(k \<mapsto> (case table w k of Some existing \<Rightarrow> existing
                                                  | None \<Rightarrow> [''cartId'' \<mapsto> Str k]) ++ map_of sets)\<rparr>))"
  by (simp add: send_UpdateCommand_def next_fault_def Let_def)

lemma capturePayment_eq:
  "capturePayment ev oid amount tok w =
     (if faults w (calls w) then Inl (Error ''Network timeout'')
      else if tok \<in> FAILURE_TOKENS then Inl (PaymentError ''Payment capture failed'' oid)
      else Inr \<lparr>transactionId = ''txn-'' @ txn_uuid ev, status = ''captured''\<rparr>,
      w\<lparr>gateway_calls := gateway_calls w @ [(oid, amount, tok)], calls := Suc (calls w)\<rparr>)"
  by (simp add: capturePayment_def next_fault_def)

lemma mapRecordToOrder_apply:
  "mapRecordToOrder record f =
     (if f \<in> {''orderId'', ''cartId'', ''status'', ''items'', ''subtotal'', ''tax'', ''total'',
              ''createdAt''}
      then record f
      else if f = ''transactionId'' \<and> truthy (record ''transactionId'') then record f
      else None)"
  by (auto simp: mapRecordToOrder_def map_add_def restrict_map_def split: option.splits)

lemma mapRecordToOrder_paymentToken: "mapRecordToOrder record ''paymentToken'' = None"
  by (simp add: mapRecordToOrder_apply)

lemma createOrder_eq:
  "createOrder ev c tok pricing w =
     (if faults w (calls w) then (Inl (Error ''DynamoDB request failed''), w\<lparr>calls := Suc (calls w)\<rparr>)
      else if table w c = None
      then (Inr (mapRecordToOrder (new_record ev c tok pricing), False),
            w\<lparr>calls := Suc (calls w), table := (table w)(c \<mapsto> new_record ev c tok pricing)\<rparr>)
      else if faults w (Suc (calls w))
      then (Inl (Error ''DynamoDB request failed''), w\<lparr>calls := Suc (Suc (calls w))\<rparr>)
      else (Inr (mapRecordToOrder (the (table w c)), True), w\<lparr>calls := Suc (Suc (calls w))\<rparr>))"
  by (auto simp: createOrder_def send_PutCommand_eq getExistingOrder_eq Let_def)

lemma updateOrderStatus_eq:
  "updateOrderStatus c st txn w =
     (if faults w (calls w) then (Inl (Error ''DynamoDB request failed''), w\<lparr>calls := Suc (calls w)\<rparr>)
      else (Inr (), w\<lparr>calls := Suc (calls w),
                      table := (table w)(c \<mapsto>
                        (case table w c of Some existing \<Rightarrow> existing | None \<Rightarrow> [''cartId'' \<mapsto> Str c])
                        ++ map_of ((''status'', Str (status_name st))
                             # (case txn of Some t \<Rightarrow> (if t \<noteq> [] then [(''transactionId'', Str t)] else [])
                                | None \<Rightarrow> [])))\<rparr>))"
  by (simp add: updateOrderStatus_def send_UpdateCommand_eq)

text \<open>
  Claim C4, as the code has it. \<open>updateOrderStatus\<close> sends an update without a condition and
  never signals that the record is missing. It fails only when the request to the store
  itself fails, and the table is then unchanged. Otherwise it succeeds whether or not a
  record exists: the record of the cart gets the new status; it gets the transaction id
  when a non-empty one is given, and keeps the transaction id it had, or none, when none
  or the empty string is given; every field other than \<open>status\<close> and \<open>transactionId\<close> keeps
  its value; the records of other carts are untouched; and where the cart had no record
  the store creates one that holds the key, the status and the given transaction id only.
\<close>

theorem updateOrderStatus_unconditional:
  "(faults w (calls w) \<longrightarrow>
      fst (updateOrderStatus c st txn w) = Inl (Error ''DynamoDB request failed'')
      \<and> table (snd (updateOrderStatus c st txn w)) = table w)
   \<and> (\<not> faults w (calls w) \<longrightarrow>
      fst (updateOrderStatus c st txn w) = Inr ()
      \<and> stored_field (snd (updateOrderStatus c st txn w)) c ''status'' = Some (Str (status_name st))
      \<and> (txn = Some t \<and> t \<noteq> [] \<longrightarrow>
           stored_field (snd (updateOrderStatus c st txn w)) c ''transactionId'' = Some (Str t))
      \<and> (txn = None \<or> txn = Some [] \<longrightarrow>
           stored_field (snd (updateOrderStatus c st txn w)) c ''transactionId''
             = stored_field w c ''transactionId'')
      \<and> (k \<noteq> c \<longrightarrow> table (snd (updateOrderStatus c st txn w)) k = table w k)
      \<and> (table w c = Some item \<and> f \<noteq> ''status'' \<and> f \<noteq> ''transactionId'' \<longrightarrow>
           stored_field (snd (updateOrderStatus c st txn w)) c f = item f)
      \<and> (table w c = None \<and> f \<noteq> ''status'' \<and> f \<noteq> ''transactionId'' \<longrightarrow>
           stored_field (snd (updateOrderStatus c st txn w)) c f
             = (if f = ''cartId'' then Some (Str c) else None)))"
  by (auto simp: updateOrderStatus_def send_UpdateCommand_def next_fault_def Let_def
      stored_field_def map_add_def split: option.splits)

theorem updateOrderStatus_unconditional_witness:
  "\<not> faults empty_world (calls empty_world)
   \<and> table empty_world ''cart-404'' = None
   \<and> fst (updateOrderStatus ''cart-404'' PAYMENT_FAILED None empty_world) = Inr ()
   \<and> stored_field (snd (updateOrderStatus ''cart-404'' PAYMENT_FAILED None empty_world))
        ''cart-404'' ''orderId'' = None
   \<and> stored_field (snd (updateOrderStatus ''cart-404'' PAYMENT_FAILED None empty_world))
        ''cart-404'' ''transactionId'' = stored_field empty_world ''cart-404'' ''transactionId''
   \<and> faults (failing_at 0) (calls (failing_at 0))
   \<and> fst (updateOrderStatus ''cart-404'' PAYMENT_FAILED None (failing_at 0))
        = Inl (Error ''DynamoDB request failed'')
   \<and> \<not> faults stored_world (calls stored_world)
   \<and> table stored_world ''cart-123'' = Some stored_record
   \<and> stored_field stored_world ''cart-123'' ''transactionId'' = Some (Str ''txn-abc'')
   \<and> ''txn-xyz'' \<noteq> []
   \<and> stored_field (snd (updateOrderStatus ''cart-123'' PAYMENT_CAPTURED (Some ''txn-xyz'')
                          stored_world)) ''cart-123'' ''transactionId'' = Some (Str ''txn-xyz'')
   \<and> stored_field (snd (updateOrderStatus ''cart-123'' PAYMENT_CAPTURED (Some ''txn-xyz'')
                          stored_world)) ''cart-123'' ''orderId'' = stored_record ''orderId''
   \<and> stored_field (snd (updateOrderStatus ''cart-123'' PAYMENT_FAILED None stored_world))
        ''cart-123'' ''transactionId'' = stored_field stored_world ''cart-123'' ''transactionId''
   \<and> stored_field (snd (updateOrderStatus ''cart-123'' PAYMENT_FAILED None stored_world))
        ''cart-123'' ''status'' = Some (Str (status_name PAYMENT_FAILED))"
proof -
  have a: "\<not> faults empty_world (calls empty_world)"
    and b: "table empty_world ''cart-404'' = None"
    and c: "''orderId'' \<noteq> ''status''" "''orderId'' \<noteq> ''transactionId''" "''orderId'' \<noteq> ''cartId''"
    and d: "faults (failing_at 0) (calls (failing_at 0))"
    and e: "\<not> faults stored_world (calls stored_world)"
    and g: "table stored_world ''cart-123'' = Some stored_record"
    and h: "stored_field stored_world ''cart-123'' ''transactionId'' = Some (Str ''txn-abc'')"
    and i: "''txn-xyz'' \<noteq> []"
    by (simp_all add: empty_world_def failing_at_def stored_world_def stored_field_def
        stored_record_def)
  note missing = updateOrderStatus_unconditional
      [where w = empty_world and c = "''cart-404''" and st = PAYMENT_FAILED and txn = None
        and k = "''cart-404''" and item = Map.empty and f = "''orderId''" and t = "''txn-xyz''"]
  note failing = updateOrderStatus_unconditional
      [where w = "failing_at 0" and c = "''cart-404''" and st = PAYMENT_FAILED and txn = None
        and k = "''cart-404''" and item = Map.empty and f = "''orderId''" and t = "''txn-xyz''"]
  note given = updateOrderStatus_unconditional
      [where w = stored_world and c = "''cart-123''" and st = PAYMENT_CAPTURED
        and txn = "Some ''txn-xyz''" and k = "''cart-123''" and item = stored_record
        and f = "''orderId''" and t = "''txn-xyz''"]
  note kept = updateOrderStatus_unconditional
      [where w = stored_world and c = "''cart-123''" and st = PAYMENT_FAILED and txn = None
        and k = "''cart-123''" and item = stored_record and f = "''orderId''"
        and t = "''txn-xyz''"]
  have m1: "fst (updateOrderStatus ''cart-404'' PAYMENT_FAILED None empty_world) = Inr ()"
    and m2: "stored_field (snd (updateOrderStatus ''cart-404'' PAYMENT_FAILED None empty_world))
        ''cart-404'' ''orderId'' = None"
    and m3: "stored_field (snd (updateOrderStatus ''cart-404'' PAYMENT_FAILED None empty_world))
        ''cart-404'' ''transactionId'' = stored_field empty_world ''cart-404'' ''transactionId''"
    using missing a b c by simp_all
  have f1: "fst (updateOrderStatus ''cart-404'' PAYMENT_FAILED None (failing_at 0))
        = Inl (Error ''DynamoDB request failed'')"
    using failing d by simp
  have g1: "stored_field (snd (updateOrderStatus ''cart-123'' PAYMENT_CAPTURED (Some ''txn-xyz'')
                          stored_world)) ''cart-123'' ''transactionId'' = Some (Str ''txn-xyz'')"
    and g2: "stored_field (snd (updateOrderStatus ''cart-123'' PAYMENT_CAPTURED (Some ''txn-xyz'')
                          stored_world)) ''cart-123'' ''orderId'' = stored_record ''orderId''"
    using given e g c i by simp_all
  have k1: "stored_field (snd (updateOrderStatus ''cart-123'' PAYMENT_FAILED None stored_world))
        ''cart-123'' ''transactionId'' = stored_field stored_world ''cart-123'' ''transactionId''"
    and k2: "stored_field (snd (updateOrderStatus ''cart-123'' PAYMENT_FAILED None stored_world))
        ''cart-123'' ''status'' = Some (Str (status_name PAYMENT_FAILED))"
    using kept e by simp_all
  show ?thesis
    by (intro conjI a b m1 m2 m3 d f1 e g h i g1 g2 k1 k2)
qed

text \<open>
  The claim as the specification states it fails: in a world whose table is empty and
  whose store is available, updating the status of a cart without a record does not
  signal anything; it succeeds, and afterwards the table holds a record for that cart.
\<close>

theorem updateOrderStatus_missing_record_counterexample:
  "table empty_world ''cart-404'' = None
   \<and> fst (updateOrderStatus ''cart-404'' PAYMENT_FAILED None empty_world) = Inr ()
   \<and> stored_field (snd (updateOrderStatus ''cart-404'' PAYMENT_FAILED None empty_world))
        ''cart-404'' ''status'' = Some (Str ''PAYMENT_FAILED'')"
  by (simp add: updateOrderStatus_def send_UpdateCommand_def next_fault_def Let_def
      stored_field_def empty_world_def)

lemma new_record_fields:
  "new_record ev c tok pricing ''orderId'' = Some (Str (''ord-'' @ order_uuid ev))"
  "new_record ev c tok pricing ''cartId'' = Some (Str c)"
  "new_record ev c tok pricing ''status'' = Some (Str ''CREATED'')"
  "new_record ev c tok pricing ''items'' = Some (Items (items pricing))"
  "new_record ev c tok pricing ''subtotal'' = Some (Num (subtotal pricing))"
  "new_record ev c tok pricing ''tax'' = Some (Num (tax pricing))"
  "new_record ev c tok pricing ''total'' = Some (Num (total pricing))"
  "new_record ev c tok pricing ''paymentToken'' = Some (Str tok)"
  "new_record ev c tok pricing ''createdAt'' = Some (Str (now_iso ev))"
  "new_record ev c tok pricing ''transactionId'' = None"
  by (simp_all add: new_record_def Let_def)

lemma created_order_fields:
  "mapRecordToOrder (new_record ev c tok pricing) ''orderId'' = Some (Str (''ord-'' @ order_uuid ev))"
  "mapRecordToOrder (new_record ev c tok pricing) ''cartId'' = Some (Str c)"
  "mapRecordToOrder (new_record ev c tok pricing) ''status'' = Some (Str ''CREATED'')"
  "mapRecordToOrder (new_record ev c tok pricing) ''items'' = Some (Items (items pricing))"
  "mapRecordToOrder (new_record ev c tok pricing) ''subtotal'' = Some (Num (subtotal pricing))"
  "mapRecordToOrder (new_record ev c tok pricing) ''tax'' = Some (Num (tax pricing))"
  "mapRecordToOrder (new_record ev c tok pricing) ''total'' = Some (Num (total pricing))"
  "mapRecordToOrder (new_record ev c tok pricing) ''transactionId'' = None"
  by (simp_all add: mapRecordToOrder_apply new_record_fields)

lemma proc_step_keeps_record:
  assumes "table w c = Some item"
  shows "\<exists>item'. table (snd (proc_step p w)) c = Some item'
           \<and> (\<forall>f. f \<noteq> ''status'' \<and> f \<noteq> ''transactionId'' \<longrightarrow> item' f = item f)"
  using assms
  by (cases p)
    (auto simp: getExistingOrder_eq send_PutCommand_eq capturePayment_eq updateOrderStatus_eq
      payment_catch_def Let_def map_add_def
      split: event_body.splits sum.splits if_splits option.splits prod.splits error.splits)

lemma expire_record_table:
  "table (expire_record c now w) k = (if k = c \<and> expired c now w then None else table w k)"
  by (simp add: expire_record_def)

lemma expired_has_record: "expired c now w \<Longrightarrow> table w c \<noteq> None"
  by (auto simp: expired_def split: option.splits)

lemma new_record_ttl:
  "new_record ev c tok pricing ''ttl''
     = Some (Num (fadd (Math_floor (fdiv (now_ms ev) 1000)) (fmul TTL_HOURS 3600)))"
  by (simp add: new_record_def Let_def)

lemma day_in_seconds: "fmul TTL_HOURS 3600 = 86400"
proof -
  have "rnd (of_int 86400) = of_int 86400"
    by (rule rnd_of_int) simp
  then show ?thesis
    by (simp add: fmul_def TTL_HOURS_def)
qed

lemma new_record_ttl_day:
  assumes "now_ms ev = of_int m" and "0 \<le> m" and "m < 2 ^ 52"
  shows "new_record ev c tok pricing ''ttl'' = Some (Num (of_int (m div 1000 + 86400)))"
proof -
  have "\<bar>m div 1000 + 86400\<bar> < 2 ^ 53"
    using div_1000_bounds(1,2) [OF assms(2)] assms(3) by simp
  then have "rnd (of_int (m div 1000 + 86400)) = of_int (m div 1000 + 86400)"
    by (rule rnd_of_int)
  then have "fadd (of_int (m div 1000)) 86400 = of_int (m div 1000 + 86400)"
    by (simp add: fadd_def)
  then show ?thesis
    using floor_seconds [OF assms(2,3)] assms(1)
    by (simp add: new_record_def Let_def day_in_seconds)
qed

lemma sample_ttl:
  "fadd (Math_floor (fdiv (now_ms sample_env) 1000)) (fmul TTL_HOURS 3600) = 1771675200"
  by code_simp

lemma first_created_table:
  "table first_created =
     [''cart-123'' \<mapsto> new_record sample_env ''cart-123'' ''tok_valid''
                         (calculatePricing (cart_items sample_request))]"
  by (simp add: first_created_def createOrder_eq empty_world_def)

lemma first_created_expired: "expired ''cart-123'' 1771675201 first_created"
  by (simp add: expired_def first_created_table new_record_ttl sample_ttl)

lemma after_expiry_simps:
  "table after_expiry k = None"
  "\<not> faults after_expiry n"
  by (simp_all add: after_expiry_def expire_record_def first_created_expired first_created_table)
    (simp add: first_created_def createOrder_eq empty_world_def)

lemma reachable_first_step:
  "reachable w0 (snd (proc_step (Received ev b) w0)) [fst (proc_step (Received ev b) w0)] [] []"
proof -
  have "reachable w0 w0 ([] @ [Received ev b]) [] []"
    by (intro reachable.arrive reachable.start)
  then have r: "reachable w0 w0 [Received ev b] [] []"
    by simp
  have "reachable w0 (snd (proc_step (Received ev b) w0))
          ([Received ev b][0 := fst (proc_step (Received ev b) w0)])
          ([] @ capture_label ([Received ev b] ! 0)) []"
    by (rule reachable.step [OF r]) simp_all
  then show ?thesis
    by simp
qed

lemma reachable_keeps_record:
  assumes "reachable w0 w ps cs xs" and "table w0 c = Some item" and "c \<notin> set xs"
  shows "\<exists>item'. table w c = Some item'
           \<and> (\<forall>f. f \<noteq> ''status'' \<and> f \<noteq> ''transactionId'' \<longrightarrow> item' f = item f)"
  using assms
proof (induction rule: reachable.induct)
  case start
  then show ?case by simp
next
  case (arrive w ps cs xs ev b)
  then show ?case by simp
next
  case (step w ps cs xs i p' w')
  then obtain item1 where 1: "table w c = Some item1"
    and 2: "\<forall>f. f \<noteq> ''status'' \<and> f \<noteq> ''transactionId'' \<longrightarrow> item1 f = item f"
    by blast
  obtain item2 where 3: "table w' c = Some item2"
    and 4: "\<forall>f. f \<noteq> ''status'' \<and> f \<noteq> ''transactionId'' \<longrightarrow> item2 f = item1 f"
    using proc_step_keeps_record [OF 1, of "ps ! i"] step.hyps(3) by auto
  show ?case
    using 2 3 4 by simp
next
  case (expire w ps cs xs c' now)
  then have "c' \<noteq> c"
    by auto
  then have "table (expire_record c' now w) c = table w c"
    by (simp add: expire_record_table)
  then show ?case
    using expire by simp
qed

text \<open>
  Claim C9, as the code has it. When the cart has no record and the store is available,
  \<open>createOrder\<close> persists a new record and returns its order with \<open>isExisting = false\<close>
  (created): the order has the status \<open>CREATED\<close>, no transaction id, and the items and
  amounts of the pricing result. When the cart has a record, the order of that record is
  returned with \<open>isExisting = true\<close> and the table is unchanged. Whatever the outcome,
  failures of the store included, a record that exists is never replaced and the records
  of other carts are untouched. No step of any invocation, in whatever state it is,
  removes or replaces the record of a cart: the step leaves a record whose fields, the
  status and the transaction id apart, are the ones it found. The table holds one record
  per \<open>cartId\<close> at most, so a cart has one order at most at any time, and in every run of
  the system, however the invocations interleave, the cart keeps that order for as long
  as the store does not expire its record. The record that \<open>createOrder\<close> writes when the
  clock shows \<open>m\<close> milliseconds is due once the store's clock has passed the whole seconds
  of \<open>m\<close> plus 86400, a day after the creation. Only that expiry removes a record; the
  cart has none afterwards, and the next \<open>createOrder\<close> creates a new order for it.
\<close>

theorem createOrder_if_absent:
  "(table w c = None \<and> \<not> faults w (calls w) \<longrightarrow>
      fst (createOrder ev c tok pricing w)
        = Inr (mapRecordToOrder (new_record ev c tok pricing), False)
      \<and> table (snd (createOrder ev c tok pricing w)) c = Some (new_record ev c tok pricing)
      \<and> mapRecordToOrder (new_record ev c tok pricing) ''status'' = Some (Str ''CREATED'')
      \<and> mapRecordToOrder (new_record ev c tok pricing) ''transactionId'' = None
      \<and> new_record ev c tok pricing ''transactionId'' = None
      \<and> mapRecordToOrder (new_record ev c tok pricing) ''cartId'' = Some (Str c)
      \<and> mapRecordToOrder (new_record ev c tok pricing) ''items'' = Some (Items (items pricing))
      \<and> mapRecordToOrder (new_record ev c tok pricing) ''subtotal'' = Some (Num (subtotal pricing))
      \<and> mapRecordToOrder (new_record ev c tok pricing) ''tax'' = Some (Num (tax pricing))
      \<and> mapRecordToOrder (new_record ev c tok pricing) ''total'' = Some (Num (total pricing)))
   \<and> (table w c = Some item \<and> \<not> faults w (calls w) \<and> \<not> faults w (Suc (calls w)) \<longrightarrow>
      fst (createOrder ev c tok pricing w) = Inr (mapRecordToOrder item, True)
      \<and> table (snd (createOrder ev c tok pricing w)) = table w)
   \<and> (table w c = Some item \<longrightarrow> table (snd (createOrder ev c tok pricing w)) c = Some item)
   \<and> (k \<noteq> c \<longrightarrow> table (snd (createOrder ev c tok pricing w)) k = table w k)
   \<and> (table w c = Some item \<longrightarrow>
        (\<exists>item'. table (snd (proc_step p w)) c = Some item'
           \<and> (\<forall>f. f \<noteq> ''status'' \<and> f \<noteq> ''transactionId'' \<longrightarrow> item' f = item f)))
   \<and> (reachable w0 w1 ps cs xs \<and> table w0 c = Some item \<and> c \<notin> set xs \<longrightarrow>
        (\<exists>item'. table w1 c = Some item'
           \<and> (\<forall>f. f \<noteq> ''status'' \<and> f \<noteq> ''transactionId'' \<longrightarrow> item' f = item f)))
   \<and> (table w c = None \<and> \<not> faults w (calls w)
        \<and> now_ms ev = of_int m \<and> 0 \<le> m \<and> m < 2 ^ 52 \<longrightarrow>
        stored_field (snd (createOrder ev c tok pricing w)) c ''ttl''
          = Some (Num (of_int (m div 1000 + 86400)))
        \<and> expired c clock (snd (createOrder ev c tok pricing w))
          = (of_int (m div 1000 + 86400) < clock))
   \<and> (expired c now w \<longrightarrow>
        table w c \<noteq> None \<and> table (expire_record c now w) c = None)
   \<and> (k \<noteq> c \<longrightarrow> table (expire_record c now w) k = table w k)"
proof -
  have due: "table w c = None \<and> \<not> faults w (calls w)
        \<and> now_ms ev = of_int m \<and> 0 \<le> m \<and> m < 2 ^ 52 \<longrightarrow>
        stored_field (snd (createOrder ev c tok pricing w)) c ''ttl''
          = Some (Num (of_int (m div 1000 + 86400)))
        \<and> expired c clock (snd (createOrder ev c tok pricing w))
          = (of_int (m div 1000 + 86400) < clock)"
  proof (intro impI)
    assume a: "table w c = None \<and> \<not> faults w (calls w)
        \<and> now_ms ev = of_int m \<and> 0 \<le> m \<and> m < 2 ^ 52"
    have "rnd (of_int 86400) = of_int 86400"
      by (rule rnd_of_int) simp
    then have day: "fmul TTL_HOURS 3600 = 86400"
      by (simp add: fmul_def TTL_HOURS_def)
    have "\<bar>m div 1000 + 86400\<bar> < 2 ^ 53"
      using div_1000_bounds(1,2) [of m] a by simp
    then have "rnd (of_int (m div 1000 + 86400)) = of_int (m div 1000 + 86400)"
      by (rule rnd_of_int)
    then have sum: "fadd (of_int (m div 1000)) 86400 = of_int (m div 1000 + 86400)"
      by (simp add: fadd_def)
    have ttl: "new_record ev c tok pricing ''ttl'' = Some (Num (of_int (m div 1000 + 86400)))"
      using floor_seconds [of m] a by (simp add: new_record_def Let_def day sum)
    have tab: "table (snd (createOrder ev c tok pricing w)) c
                 = Some (new_record ev c tok pricing)"
      using a by (simp add: createOrder_def send_PutCommand_def next_fault_def Let_def)
    show "stored_field (snd (createOrder ev c tok pricing w)) c ''ttl''
          = Some (Num (of_int (m div 1000 + 86400)))
        \<and> expired c clock (snd (createOrder ev c tok pricing w))
          = (of_int (m div 1000 + 86400) < clock)"
      by (simp add: stored_field_def expired_def tab ttl)
  qed
  have fields: "mapRecordToOrder (new_record ev c tok pricing) ''status'' = Some (Str ''CREATED'')"
    "mapRecordToOrder (new_record ev c tok pricing) ''transactionId'' = None"
    "new_record ev c tok pricing ''transactionId'' = None"
    "mapRecordToOrder (new_record ev c tok pricing) ''cartId'' = Some (Str c)"
    "mapRecordToOrder (new_record ev c tok pricing) ''items'' = Some (Items (items pricing))"
    "mapRecordToOrder (new_record ev c tok pricing) ''subtotal'' = Some (Num (subtotal pricing))"
    "mapRecordToOrder (new_record ev c tok pricing) ''tax'' = Some (Num (tax pricing))"
    "mapRecordToOrder (new_record ev c tok pricing) ''total'' = Some (Num (total pricing))"
    by (simp_all add: mapRecordToOrder_def new_record_def Let_def map_add_def restrict_map_def)
  have outcome: "createOrder ev c tok pricing w =
     (if faults w (calls w) then (Inl (Error ''DynamoDB request failed''), w\<lparr>calls := Suc (calls w)\<rparr>)
      else if table w c = None
      then (Inr (mapRecordToOrder (new_record ev c tok pricing), False),
            w\<lparr>calls := Suc (calls w), table := (table w)(c \<mapsto> new_record ev c tok pricing)\<rparr>)
      else if faults w (Suc (calls w))
      then (Inl (Error ''DynamoDB request failed''), w\<lparr>calls := Suc (Suc (calls w))\<rparr>)
      else (Inr (mapRecordToOrder (the (table w c)), True), w\<lparr>calls := Suc (Suc (calls w))\<rparr>))"
    by (auto simp: createOrder_def send_PutCommand_def getExistingOrder_def send_GetCommand_def
        next_fault_def Let_def split: option.splits)
  have gone: "table (expire_record c now w) j
                = (if j = c \<and> expired c now w then None else table w j)" for j
    by (simp add: expire_record_def)
  have there: "expired c now w \<longrightarrow> table w c \<noteq> None"
    by (auto simp: expired_def split: option.splits)
  show ?thesis
    using proc_step_keeps_record [of w c item p]
      reachable_keeps_record [of w0 w1 ps cs xs c item] there due
    by (simp add: outcome fields gone)
qed

theorem createOrder_if_absent_witness:
  "table empty_world ''cart-123'' = None
   \<and> \<not> faults empty_world (calls empty_world)
   \<and> fst (createOrder sample_env ''cart-123'' ''tok_valid''
             (calculatePricing (cart_items sample_request)) empty_world)
       = Inr (mapRecordToOrder (new_record sample_env ''cart-123'' ''tok_valid''
                (calculatePricing (cart_items sample_request))), False)
   \<and> table stored_world ''cart-123'' = Some stored_record
   \<and> \<not> faults stored_world (calls stored_world)
   \<and> \<not> faults stored_world (Suc (calls stored_world))
   \<and> fst (createOrder sample_env ''cart-123'' ''tok_valid''
             (calculatePricing (cart_items sample_request)) stored_world)
       = Inr (mapRecordToOrder stored_record, True)
   \<and> table (snd (createOrder sample_env ''cart-123'' ''tok_valid''
             (calculatePricing (cart_items sample_request)) stored_world)) ''cart-123''
       = Some stored_record
   \<and> ''cart-999'' \<noteq> ''cart-123''
   \<and> table (snd (createOrder sample_env ''cart-123'' ''tok_valid''
             (calculatePricing (cart_items sample_request)) empty_world)) ''cart-999''
       = table empty_world ''cart-999''
   \<and> (\<exists>item'. table (snd (proc_step (Put_pending other_env sample_request) stored_world))
                  ''cart-123'' = Some item'
         \<and> item' ''orderId'' = stored_record ''orderId'')
   \<and> reachable stored_world
        (snd (proc_step (Received other_env (Parsed sample_request)) stored_world))
        [fst (proc_step (Received other_env (Parsed sample_request)) stored_world)] [] []
   \<and> ''cart-123'' \<notin> set []
   \<and> (\<exists>item'. table (snd (proc_step (Received other_env (Parsed sample_request)) stored_world))
                  ''cart-123'' = Some item'
         \<and> item' ''orderId'' = stored_record ''orderId'')
   \<and> expired ''cart-123'' 1771675201 first_created
   \<and> table (expire_record ''cart-123'' 1771675201 first_created) ''cart-123'' = None
   \<and> now_ms sample_env = of_int 1771588800000
   \<and> stored_field (snd (createOrder sample_env ''cart-123'' ''tok_valid''
             (calculatePricing (cart_items sample_request)) empty_world)) ''cart-123'' ''ttl''
       = Some (Num (of_int (1771588800000 div 1000 + 86400)))"
proof -
  have a: "table empty_world ''cart-123'' = None \<and> \<not> faults empty_world (calls empty_world)"
    and c: "table stored_world ''cart-123'' = Some stored_record"
    and d: "\<not> faults stored_world (calls stored_world)"
           "\<not> faults stored_world (Suc (calls stored_world))"
    and e: "''cart-999'' \<noteq> ''cart-123''"
    and n: "''cart-123'' \<notin> set []"
    by (simp_all add: empty_world_def stored_world_def)
  note r = reachable_first_step [of stored_world other_env "Parsed sample_request"]
  note first = createOrder_if_absent [where w = empty_world and c = "''cart-123''"
      and ev = sample_env and tok = "''tok_valid''"
      and pricing = "calculatePricing (cart_items sample_request)" and item = stored_record
      and k = "''cart-999''" and p = "Put_pending other_env sample_request"]
  note second = createOrder_if_absent [where w = stored_world and c = "''cart-123''"
      and ev = sample_env and tok = "''tok_valid''"
      and pricing = "calculatePricing (cart_items sample_request)" and item = stored_record
      and k = "''cart-999''" and p = "Put_pending other_env sample_request"
      and ?w0.0 = stored_world
      and ?w1.0 = "snd (proc_step (Received other_env (Parsed sample_request)) stored_world)"
      and ps = "[fst (proc_step (Received other_env (Parsed sample_request)) stored_world)]"
      and cs = "[]" and xs = "[]"]
  note third = createOrder_if_absent [where w = first_created and c = "''cart-123''"
      and now = 1771675201]
  note rest = second [THEN conjunct2, THEN conjunct2, THEN conjunct2, THEN conjunct2]
  note created = first [THEN conjunct1, THEN mp, OF a, THEN conjunct1]
  note other = first [THEN conjunct2, THEN conjunct2, THEN conjunct2, THEN conjunct1, THEN mp, OF e]
  note existing = second [THEN conjunct2, THEN conjunct1, THEN mp, OF conjI [OF c conjI [OF d]],
      THEN conjunct1]
  note kept = second [THEN conjunct2, THEN conjunct2, THEN conjunct1, THEN mp, OF c]
  note step = rest [THEN conjunct1, THEN mp, OF c]
  note run = rest [THEN conjunct2, THEN conjunct1, THEN mp, OF conjI [OF r conjI [OF c n]]]
  note gone = third [THEN conjunct2, THEN conjunct2, THEN conjunct2, THEN conjunct2,
      THEN conjunct2, THEN conjunct2, THEN conjunct2, THEN conjunct1, THEN mp,
      OF first_created_expired, THEN conjunct2]
  have clock: "now_ms sample_env = of_int 1771588800000"
    and range: "(0::int) \<le> 1771588800000" "(1771588800000::int) < 2 ^ 52"
    by (simp_all add: sample_env_def)
  note fourth = createOrder_if_absent [where w = empty_world and c = "''cart-123''"
      and ev = sample_env and tok = "''tok_valid''"
      and pricing = "calculatePricing (cart_items sample_request)" and m = 1771588800000]
  note due = fourth [THEN conjunct2, THEN conjunct2, THEN conjunct2, THEN conjunct2,
      THEN conjunct2, THEN conjunct2, THEN conjunct1, THEN mp,
      OF conjI [OF a [THEN conjunct1] conjI [OF a [THEN conjunct2]
        conjI [OF clock conjI [OF range]]]], THEN conjunct1]
  from step obtain item' where
    i: "table (snd (proc_step (Put_pending other_env sample_request) stored_world)) ''cart-123''
          = Some item'"
    and j: "\<forall>f. f \<noteq> ''status'' \<and> f \<noteq> ''transactionId'' \<longrightarrow> item' f = stored_record f"
    by (elim exE conjE)
  have "item' ''orderId'' = stored_record ''orderId''"
    using j by simp
  with i have last: "\<exists>item'. table (snd (proc_step (Put_pending other_env sample_request)
                  stored_world)) ''cart-123'' = Some item'
         \<and> item' ''orderId'' = stored_record ''orderId''"
    by (intro exI conjI)
  from run obtain item'' where
    i2: "table (snd (proc_step (Received other_env (Parsed sample_request)) stored_world))
           ''cart-123'' = Some item''"
    and j2: "\<forall>f. f \<noteq> ''status'' \<and> f \<noteq> ''transactionId'' \<longrightarrow> item'' f = stored_record f"
    by (elim exE conjE)
  have "item'' ''orderId'' = stored_record ''orderId''"
    using j2 by simp
  with i2 have last2: "\<exists>item'. table (snd (proc_step (Received other_env (Parsed sample_request))
                  stored_world)) ''cart-123'' = Some item'
         \<and> item' ''orderId'' = stored_record ''orderId''"
    by (intro exI conjI)
  show ?thesis
    using a c d e n created other existing kept last r last2 first_created_expired gone
    by (intro conjI clock due) simp_all
qed

text \<open>
  The claim as the specification states it fails in its last clause: the order service
  creates the order \<open>ord-0a1b\<close> for the cart, with a \<open>ttl\<close> of 24 hours after its creation;
  one second after that the record is due and the store deletes it; a day after the first
  call \<open>createOrder\<close> finds no record for the same cart and creates the order \<open>ord-4e5f\<close>.
  Two orders have existed for one \<open>cartId\<close>.
\<close>

theorem second_order_after_expiry_counterexample:
  "stored_field first_created ''cart-123'' ''orderId'' = Some (Str ''ord-0a1b'')
   \<and> stored_field first_created ''cart-123'' ''ttl'' = Some (Num 1771675200)
   \<and> expired ''cart-123'' 1771675201 first_created
   \<and> table after_expiry ''cart-123'' = None
   \<and> fst (createOrder later_env ''cart-123'' ''tok_valid''
             (calculatePricing (cart_items sample_request)) after_expiry)
       = Inr (mapRecordToOrder (new_record later_env ''cart-123'' ''tok_valid''
                (calculatePricing (cart_items sample_request))), False)
   \<and> stored_field (snd (createOrder later_env ''cart-123'' ''tok_valid''
             (calculatePricing (cart_items sample_request)) after_expiry))
        ''cart-123'' ''orderId'' = Some (Str ''ord-4e5f'')"
proof (intro conjI)
  show "stored_field first_created ''cart-123'' ''orderId'' = Some (Str ''ord-0a1b'')"
    by (simp add: stored_field_def first_created_table new_record_fields sample_env_def)
  show "stored_field first_created ''cart-123'' ''ttl'' = Some (Num 1771675200)"
    by (simp add: stored_field_def first_created_table new_record_ttl sample_ttl)
  show "expired ''cart-123'' 1771675201 first_created"
    by (rule first_created_expired)
  show "table after_expiry ''cart-123'' = None"
    by (rule after_expiry_simps)
  show "fst (createOrder later_env ''cart-123'' ''tok_valid''
             (calculatePricing (cart_items sample_request)) after_expiry)
       = Inr (mapRecordToOrder (new_record later_env ''cart-123'' ''tok_valid''
                (calculatePricing (cart_items sample_request))), False)"
    by (simp add: createOrder_def send_PutCommand_def next_fault_def Let_def after_expiry_simps)
  show "stored_field (snd (createOrder later_env ''cart-123'' ''tok_valid''
             (calculatePricing (cart_items sample_request)) after_expiry))
        ''cart-123'' ''orderId'' = Some (Str ''ord-4e5f'')"
    by (simp add: createOrder_def send_PutCommand_def next_fault_def Let_def after_expiry_simps
        stored_field_def new_record_def later_env_def)
qed

section \<open>Properties of the handler\<close>


lemma completedOrder_apply:
  "completedOrder order txn f =
     (if f = ''transactionId'' then Some (Str txn)
      else if f = ''status'' then Some (Str ''PAYMENT_CAPTURED'')
      else order f)"
  by (simp add: completedOrder_def)

lemma error_statusCode_cases: "error_statusCode e = 400 \<or> error_statusCode e = 402 \<or> error_statusCode e = 500"
  by (cases e) simp_all

lemma outer_catch_body: "\<exists>c m. body (outer_catch e) = ErrorResponse c m None"
  by (simp add: outer_catch_def respond_def)

lemma outer_catch_statusCode:
  "statusCode (outer_catch e) = 400 \<or> statusCode (outer_catch e) = 402 \<or> statusCode (outer_catch e) = 500"
  using error_statusCode_cases [of e] by (simp add: outer_catch_def respond_def)

lemma created_world_simps [simp]:
  "calls (created_world ev request w) = Suc (Suc (calls w))"
  "faults (created_world ev request w) = faults w"
  "gateway_calls (created_world ev request w) = gateway_calls w"
  "table (created_world ev request w) (cartId request) = Some (created_record ev request)"
  "k \<noteq> cartId request \<Longrightarrow> table (created_world ev request w) k = table w k"
  by (simp_all add: created_world_def)

lemma created_world_createOrder:
  assumes "table w (cartId request) = None"
    and "\<not> faults w (calls w)" and "\<not> faults w (Suc (calls w))"
  shows "createOrder ev (cartId request) (paymentToken request)
           (calculatePricing (cart_items request)) (snd (getExistingOrder (cartId request) w))
         = (Inr (created_order ev request, False), created_world ev request w)"
  using assms
  by (simp add: getExistingOrder_eq createOrder_eq created_world_def created_order_def
      created_record_def)

lemma handler_new_order:
  assumes "validateCheckoutRequest (Some request) = Inr request"
    and "table w (cartId request) = None"
    and "\<not> faults w (calls w)" and "\<not> faults w (Suc (calls w))"
  shows "fst (handler ev (Parsed request) w) =
           (case fst (payment_step ev request (created_order ev request)
                        (created_world ev request w)) of
              Inr response \<Rightarrow> response
            | Inl e \<Rightarrow> outer_catch e)"
    and "snd (handler ev (Parsed request) w) =
           snd (payment_step ev request (created_order ev request) (created_world ev request w))"
  using assms
  by (simp_all add: handler_def checkout_def getExistingOrder_eq createOrder_eq Let_def
      created_world_def created_order_def created_record_def case_prod_beta
      split: sum.splits)

lemma created_record_fields:
  "created_record ev request ''orderId'' = Some (Str (''ord-'' @ order_uuid ev))"
  "created_record ev request ''cartId'' = Some (Str (cartId request))"
  "created_record ev request ''status'' = Some (Str ''CREATED'')"
  "created_record ev request ''items'' = Some (Items (items (calculatePricing (cart_items request))))"
  "created_record ev request ''subtotal'' = Some (Num (subtotal (calculatePricing (cart_items request))))"
  "created_record ev request ''tax'' = Some (Num (tax (calculatePricing (cart_items request))))"
  "created_record ev request ''total'' = Some (Num (total (calculatePricing (cart_items request))))"
  "created_record ev request ''paymentToken'' = Some (Str (paymentToken request))"
  "created_record ev request ''transactionId'' = None"
  by (simp_all add: created_record_def new_record_fields)

lemma created_order_apply:
  "created_order ev request ''orderId'' = Some (Str (''ord-'' @ order_uuid ev))"
  "created_order ev request ''total'' = Some (Num (total (calculatePricing (cart_items request))))"
  "created_order ev request ''status'' = Some (Str ''CREATED'')"
  "created_order ev request ''transactionId'' = None"
  "created_order ev request ''paymentToken'' = None"
  by (simp_all add: created_order_def mapRecordToOrder_apply created_record_fields)


lemma payment_step_declined:
  assumes "\<not> faults w (calls w)" and "paymentToken request \<in> FAILURE_TOKENS"
    and "\<not> faults w (Suc (calls w))"
  shows "fst (payment_step ev request order w) = Inr (respond 402 (ErrorResponse PAYMENT_FAILED_code ''Payment capture failed'' (order ''orderId'')))"
    and "gateway_calls (snd (payment_step ev request order w)) =
           gateway_calls w @ [(order ''orderId'', order ''total'', paymentToken request)]"
    and "calls (snd (payment_step ev request order w)) = Suc (Suc (calls w))"
    and "faults (snd (payment_step ev request order w)) = faults w"
    and "stored_field (snd (payment_step ev request order w)) (cartId request) f =
           (if f = ''status'' then Some (Str ''PAYMENT_FAILED'')
            else (case table w (cartId request) of Some existing \<Rightarrow> existing f
              | None \<Rightarrow> [''cartId'' \<mapsto> Str (cartId request)] f))"
    and "k \<noteq> cartId request \<Longrightarrow> table (snd (payment_step ev request order w)) k = table w k"
  using assms
  by (auto simp: payment_step_def payment_try_def payment_catch_def capturePayment_eq
      updateOrderStatus_eq stored_field_def map_add_def split: option.splits)

lemma payment_step_declined_store_error:
  assumes "\<not> faults w (calls w)" and "paymentToken request \<in> FAILURE_TOKENS"
    and "faults w (Suc (calls w))"
  shows "fst (payment_step ev request order w) = Inl (Error ''DynamoDB request failed'')"
    and "gateway_calls (snd (payment_step ev request order w)) =
           gateway_calls w @ [(order ''orderId'', order ''total'', paymentToken request)]"
    and "calls (snd (payment_step ev request order w)) = Suc (Suc (calls w))"
    and "faults (snd (payment_step ev request order w)) = faults w"
    and "table (snd (payment_step ev request order w)) = table w"
  using assms
  by (auto simp: payment_step_def payment_try_def payment_catch_def capturePayment_eq
      updateOrderStatus_eq stored_field_def map_add_def split: option.splits)

lemma payment_step_gateway_error:
  assumes "faults w (calls w)" and "\<not> faults w (Suc (calls w))"
  shows "fst (payment_step ev request order w) = Inl (Error ''Network timeout'')"
    and "gateway_calls (snd (payment_step ev request order w)) =
           gateway_calls w @ [(order ''orderId'', order ''total'', paymentToken request)]"
    and "calls (snd (payment_step ev request order w)) = Suc (Suc (calls w))"
    and "faults (snd (payment_step ev request order w)) = faults w"
    and "stored_field (snd (payment_step ev request order w)) (cartId request) f =
           (if f = ''status'' then Some (Str ''PAYMENT_FAILED'')
            else (case table w (cartId request) of Some existing \<Rightarrow> existing f
              | None \<Rightarrow> [''cartId'' \<mapsto> Str (cartId request)] f))"
    and "k \<noteq> cartId request \<Longrightarrow> table (snd (payment_step ev request order w)) k = table w k"
  using assms
  by (auto simp: payment_step_def payment_try_def payment_catch_def capturePayment_eq
      updateOrderStatus_eq stored_field_def map_add_def split: option.splits)

lemma payment_step_gateway_error_store_error:
  assumes "faults w (calls w)" and "faults w (Suc (calls w))"
  shows "fst (payment_step ev request order w) = Inl (Error ''DynamoDB request failed'')"
    and "gateway_calls (snd (payment_step ev request order w)) =
           gateway_calls w @ [(order ''orderId'', order ''total'', paymentToken request)]"
    and "calls (snd (payment_step ev request order w)) = Suc (Suc (calls w))"
    and "faults (snd (payment_step ev request order w)) = faults w"
    and "table (snd (payment_step ev request order w)) = table w"
  using assms
  by (auto simp: payment_step_def payment_try_def payment_catch_def capturePayment_eq
      updateOrderStatus_eq stored_field_def map_add_def split: option.splits)

lemma payment_step_captured_store_error:
  assumes "\<not> faults w (calls w)" and "paymentToken request \<notin> FAILURE_TOKENS"
    and "faults w (Suc (calls w))" and "\<not> faults w (Suc (Suc (calls w)))"
  shows "fst (payment_step ev request order w) = Inl (Error ''DynamoDB request failed'')"
    and "gateway_calls (snd (payment_step ev request order w)) =
           gateway_calls w @ [(order ''orderId'', order ''total'', paymentToken request)]"
    and "calls (snd (payment_step ev request order w)) = Suc (Suc (Suc (calls w)))"
    and "faults (snd (payment_step ev request order w)) = faults w"
    and "stored_field (snd (payment_step ev request order w)) (cartId request) f =
           (if f = ''status'' then Some (Str ''PAYMENT_FAILED'')
            else (case table w (cartId request) of Some existing \<Rightarrow> existing f
              | None \<Rightarrow> [''cartId'' \<mapsto> Str (cartId request)] f))"
    and "k \<noteq> cartId request \<Longrightarrow> table (snd (payment_step ev request order w)) k = table w k"
  using assms
  by (auto simp: payment_step_def payment_try_def payment_catch_def capturePayment_eq
      updateOrderStatus_eq stored_field_def map_add_def split: option.splits)

lemma outer_catch_not_201 [simp]: "statusCode (outer_catch e) \<noteq> 201"
  using outer_catch_statusCode [of e] by auto

lemma outer_catch_not_success [simp]: "body (outer_catch e) \<noteq> SuccessResponse order"
  using outer_catch_body [of e] by auto


lemma handler_success_order:
  assumes "body (fst (handler ev b w)) = SuccessResponse order"
  shows "order ''paymentToken'' = None"
proof (cases b)
  case Absent
  then show ?thesis
    using assms by (simp add: handler_def checkout_def validateCheckoutRequest_def)
next
  case Malformed
  then show ?thesis
    using assms by (simp add: handler_def respond_def)
next
  case (Parsed r)
  show ?thesis
  proof (cases "validateCheckoutRequest (Some r)")
    case (Inl e)
    then show ?thesis
      using assms Parsed by (simp add: handler_def checkout_def)
  next
    case (Inr request)
    show ?thesis
      using assms Parsed Inr
      by (auto simp: handler_def checkout_def getExistingOrder_eq createOrder_eq payment_step_def
          payment_try_def payment_catch_def capturePayment_eq updateOrderStatus_eq respond_def
          Let_def completedOrder_apply mapRecordToOrder_apply split: if_splits option.splits)
  qed
qed

lemma sample_request_valid: "validateCheckoutRequest (Some sample_request) = Inr sample_request"
  by code_simp

lemma sample_request_fields:
  "cartId sample_request = ''cart-123''"
  "paymentToken sample_request = ''tok_valid''"
  "paymentToken sample_request \<notin> FAILURE_TOKENS"
  by (simp_all add: sample_request_def FAILURE_TOKENS_def)


lemma failing_at_simps:
  "table (failing_at n) k = None"
  "faults (failing_at n) m = (m = n)"
  "calls (failing_at n) = 0"
  "gateway_calls (failing_at n) = []"
  by (simp_all add: failing_at_def empty_world_def)

text \<open>
  Claim C8, as the code has it. The calls an invocation awaits are numbered from
  \<open>calls w\<close> on: the idempotency check, the conditional put, the gateway, the status
  update. A valid request for a cart without a record carries a token that the gateway
  declines, and the first three calls do not fail for a reason of the infrastructure: the
  gateway is called once and answers with \<open>PaymentError\<close>, and the handler sends the update
  to \<open>PAYMENT_FAILED\<close> without a transaction id. Whether or not that update succeeds, the
  record of the cart has no transaction id and every field other than the status, the
  items, subtotal, tax and total among them, is the one of the record written at
  creation. When the update succeeds, the record has the status \<open>PAYMENT_FAILED\<close>, and the
  answer has the status code 402 and a body that holds the code \<open>PAYMENT_FAILED\<close>, the
  gateway's fixed message and the order id, and nothing else. When the update fails, the
  record keeps the status \<open>CREATED\<close>, and the answer has the status code 500 and the body
  of the generic internal error, without the order id.
\<close>

theorem payment_decline_isolated:
  assumes "validateCheckoutRequest (Some request) = Inr request"
    and "table w (cartId request) = None"
    and "paymentToken request \<in> FAILURE_TOKENS"
    and "\<not> faults w (calls w)" and "\<not> faults w (Suc (calls w))"
    and "\<not> faults w (Suc (Suc (calls w)))"
  shows "fst (capturePayment ev (created_order ev request ''orderId'')
                (created_order ev request ''total'') (paymentToken request)
                (created_world ev request w))
           = Inl (PaymentError ''Payment capture failed'' (Some (Str (''ord-'' @ order_uuid ev))))
       \<and> table (snd (createOrder ev (cartId request) (paymentToken request)
                       (calculatePricing (cart_items request))
                       (snd (getExistingOrder (cartId request) w)))) (cartId request)
           = Some (created_record ev request)
       \<and> stored_field (snd (handler ev (Parsed request) w)) (cartId request) ''transactionId''
           = None
       \<and> stored_field (snd (handler ev (Parsed request) w)) (cartId request) ''items''
           = Some (Items (items (calculatePricing (cart_items request))))
       \<and> stored_field (snd (handler ev (Parsed request) w)) (cartId request) ''subtotal''
           = Some (Num (subtotal (calculatePricing (cart_items request))))
       \<and> stored_field (snd (handler ev (Parsed request) w)) (cartId request) ''tax''
           = Some (Num (tax (calculatePricing (cart_items request))))
       \<and> stored_field (snd (handler ev (Parsed request) w)) (cartId request) ''total''
           = Some (Num (total (calculatePricing (cart_items request))))
       \<and> (f \<noteq> ''status'' \<longrightarrow>
            stored_field (snd (handler ev (Parsed request) w)) (cartId request) f
              = created_record ev request f)
       \<and> gateway_calls (snd (handler ev (Parsed request) w))
           = gateway_calls w @ [(Some (Str (''ord-'' @ order_uuid ev)),
                                 Some (Num (total (calculatePricing (cart_items request)))),
                                 paymentToken request)]
       \<and> calls (snd (handler ev (Parsed request) w)) = Suc (Suc (Suc (Suc (calls w))))
       \<and> (\<not> faults w (Suc (Suc (Suc (calls w)))) \<longrightarrow>
            stored_field (snd (handler ev (Parsed request) w)) (cartId request) ''status''
              = Some (Str ''PAYMENT_FAILED'')
            \<and> statusCode (fst (handler ev (Parsed request) w)) = 402
            \<and> body (fst (handler ev (Parsed request) w))
                = ErrorResponse ''PAYMENT_FAILED'' ''Payment capture failed''
                    (Some (Str (''ord-'' @ order_uuid ev))))
       \<and> (faults w (Suc (Suc (Suc (calls w)))) \<longrightarrow>
            stored_field (snd (handler ev (Parsed request) w)) (cartId request) ''status''
              = Some (Str ''CREATED'')
            \<and> statusCode (fst (handler ev (Parsed request) w)) = 500
            \<and> body (fst (handler ev (Parsed request) w))
                = ErrorResponse ''INTERNAL_ERROR'' ''An unexpected error occurred'' None)"
proof -
  let ?c = "cartId request"
  let ?w2 = "created_world ev request w"
  let ?order = "created_order ev request"
  let ?w3 = "?w2\<lparr>gateway_calls := gateway_calls w @ [(?order ''orderId'', ?order ''total'',
                                                        paymentToken request)],
                 calls := Suc (Suc (Suc (calls w)))\<rparr>"
  have rec: "created_record ev request ''orderId'' = Some (Str (''ord-'' @ order_uuid ev))"
    "created_record ev request ''status'' = Some (Str ''CREATED'')"
    "created_record ev request ''transactionId'' = None"
    "created_record ev request ''items'' = Some (Items (items (calculatePricing (cart_items request))))"
    "created_record ev request ''subtotal'' = Some (Num (subtotal (calculatePricing (cart_items request))))"
    "created_record ev request ''tax'' = Some (Num (tax (calculatePricing (cart_items request))))"
    "created_record ev request ''total'' = Some (Num (total (calculatePricing (cart_items request))))"
    by (simp_all add: created_record_def new_record_def Let_def)
  have ord: "?order ''orderId'' = Some (Str (''ord-'' @ order_uuid ev))"
    "?order ''total'' = Some (Num (total (calculatePricing (cart_items request))))"
    using rec by (simp_all add: created_order_def mapRecordToOrder_def map_add_def restrict_map_def)
  have g: "getExistingOrder ?c w = (Inr None, w\<lparr>calls := Suc (calls w)\<rparr>)"
    using assms(2,4) by (simp add: getExistingOrder_def send_GetCommand_def next_fault_def)
  have c: "createOrder ev ?c (paymentToken request) (calculatePricing (cart_items request))
             (w\<lparr>calls := Suc (calls w)\<rparr>) = (Inr (?order, False), ?w2)"
    using assms(2,5)
    by (simp add: createOrder_def send_PutCommand_def next_fault_def created_order_def
        created_record_def created_world_def Let_def)
  have p: "capturePayment ev (?order ''orderId'') (?order ''total'') (paymentToken request) ?w2
             = (Inl (PaymentError ''Payment capture failed'' (?order ''orderId'')), ?w3)"
    using assms(3,6) by (simp add: capturePayment_def next_fault_def created_world_def)
  have t: "payment_try ev request ?order ?w2
             = (Inl (PaymentError ''Payment capture failed'' (?order ''orderId'')), ?w3)"
    by (simp add: payment_try_def p)
  have h: "handler ev (Parsed request) w =
             (case payment_catch request ?order
                     (PaymentError ''Payment capture failed'' (?order ''orderId'')) ?w3 of
                (Inr response, w4) \<Rightarrow> (response, w4)
              | (Inl e, w4) \<Rightarrow> (outer_catch e, w4))"
    by (simp add: handler_def checkout_def assms(1) g c payment_step_def t)
  have declined: "fst (capturePayment ev (?order ''orderId'') (?order ''total'')
                         (paymentToken request) ?w2)
           = Inl (PaymentError ''Payment capture failed'' (Some (Str (''ord-'' @ order_uuid ev))))"
    unfolding p by (simp add: ord)
  have created: "table (snd (createOrder ev ?c (paymentToken request)
                       (calculatePricing (cart_items request))
                       (snd (getExistingOrder ?c w)))) ?c
           = Some (created_record ev request)"
    by (simp add: g c created_world_def)
  have w3: "table ?w3 ?c = Some (created_record ev request)" "calls ?w3 = Suc (Suc (Suc (calls w)))"
    "faults ?w3 = faults w"
    by (simp_all add: created_world_def)
  show ?thesis
  proof (cases "faults w (Suc (Suc (Suc (calls w))))")
    case False
    have u: "updateOrderStatus ?c PAYMENT_FAILED None ?w3
               = (Inr (), ?w3\<lparr>calls := Suc (Suc (Suc (Suc (calls w)))),
                              table := (table ?w3)(?c \<mapsto> (created_record ev request)
                                          (''status'' \<mapsto> Str ''PAYMENT_FAILED''))\<rparr>)"
      using False w3
      by (simp add: updateOrderStatus_def send_UpdateCommand_def next_fault_def Let_def
          map_add_def fun_eq_iff)
    have r: "handler ev (Parsed request) w
               = (respond 402 (ErrorResponse PAYMENT_FAILED_code ''Payment capture failed''
                                 (?order ''orderId'')),
                  ?w3\<lparr>calls := Suc (Suc (Suc (Suc (calls w)))),
                       table := (table ?w3)(?c \<mapsto> (created_record ev request)
                                   (''status'' \<mapsto> Str ''PAYMENT_FAILED''))\<rparr>)"
      by (simp add: h payment_catch_def u)
    show ?thesis
      using False declined created
      by (simp add: r respond_def PAYMENT_FAILED_code_def stored_field_def rec ord)
  next
    case True
    have u: "updateOrderStatus ?c PAYMENT_FAILED None ?w3
               = (Inl (Error ''DynamoDB request failed''),
                  ?w3\<lparr>calls := Suc (Suc (Suc (Suc (calls w))))\<rparr>)"
      using True w3
      by (simp add: updateOrderStatus_def send_UpdateCommand_def next_fault_def)
    have r: "handler ev (Parsed request) w
               = (respond 500 (ErrorResponse INTERNAL_ERROR ''An unexpected error occurred'' None),
                  ?w3\<lparr>calls := Suc (Suc (Suc (Suc (calls w))))\<rparr>)"
      by (simp add: h payment_catch_def u outer_catch_def)
    show ?thesis
      using True declined created
      by (simp add: r respond_def INTERNAL_ERROR_def stored_field_def rec ord w3)
  qed
qed

lemma declined_request_facts:
  "validateCheckoutRequest (Some declined_request) = Inr declined_request"
  "cartId declined_request = ''cart-123''"
  "paymentToken declined_request \<in> FAILURE_TOKENS"
  by code_simp
    (simp_all add: declined_request_def sample_request_def FAILURE_TOKENS_def)

theorem payment_decline_isolated_witness:
  "validateCheckoutRequest (Some declined_request) = Inr declined_request
   \<and> table empty_world (cartId declined_request) = None
   \<and> paymentToken declined_request \<in> FAILURE_TOKENS
   \<and> \<not> faults empty_world (Suc (Suc (Suc (calls empty_world))))
   \<and> statusCode (fst (handler sample_env (Parsed declined_request) empty_world)) = 402
   \<and> body (fst (handler sample_env (Parsed declined_request) empty_world))
       = ErrorResponse ''PAYMENT_FAILED'' ''Payment capture failed''
           (Some (Str (''ord-'' @ order_uuid sample_env)))
   \<and> stored_field (snd (handler sample_env (Parsed declined_request) empty_world))
        (cartId declined_request) ''status'' = Some (Str ''PAYMENT_FAILED'')
   \<and> stored_field (snd (handler sample_env (Parsed declined_request) empty_world))
        (cartId declined_request) ''transactionId'' = None
   \<and> table (failing_at 3) (cartId declined_request) = None
   \<and> faults (failing_at 3) (Suc (Suc (Suc (calls (failing_at 3)))))
   \<and> statusCode (fst (handler sample_env (Parsed declined_request) (failing_at 3))) = 500
   \<and> stored_field (snd (handler sample_env (Parsed declined_request) (failing_at 3)))
        (cartId declined_request) ''status'' = Some (Str ''CREATED'')
   \<and> stored_field (snd (handler sample_env (Parsed declined_request) (failing_at 3)))
        (cartId declined_request) ''total''
       = Some (Num (total (calculatePricing (cart_items declined_request))))"
proof -
  note a = declined_request_facts(1)
  note c = declined_request_facts(3)
  have b: "table empty_world (cartId declined_request) = None"
    and d: "\<not> faults empty_world (calls empty_world)"
      "\<not> faults empty_world (Suc (calls empty_world))"
      "\<not> faults empty_world (Suc (Suc (calls empty_world)))"
    and e: "\<not> faults empty_world (Suc (Suc (Suc (calls empty_world))))"
    by (simp_all add: empty_world_def)
  have b': "table (failing_at 3) (cartId declined_request) = None"
    and d': "\<not> faults (failing_at 3) (calls (failing_at 3))"
      "\<not> faults (failing_at 3) (Suc (calls (failing_at 3)))"
      "\<not> faults (failing_at 3) (Suc (Suc (calls (failing_at 3))))"
    and e': "faults (failing_at 3) (Suc (Suc (Suc (calls (failing_at 3)))))"
    by (simp_all add: failing_at_def empty_world_def)
  show ?thesis
    using a b c e b' e'
      payment_decline_isolated [OF a b c d, where ev = sample_env]
      payment_decline_isolated [OF a b' c d', where ev = sample_env]
    by blast
qed

text \<open>
  The claim as the specification states it fails: with the request of the tests carrying
  a token that the gateway declines, an empty table and a store that fails at the fourth
  awaited call (the update to \<open>PAYMENT_FAILED\<close>), the gateway declines the charge, and the
  persisted order ends with the status \<open>CREATED\<close>, not \<open>PAYMENT_FAILED\<close>; the answer is
  500, not 402, and its body does not carry the order id.
\<close>

theorem payment_decline_store_failure_counterexample:
  "fst (capturePayment sample_env (created_order sample_env declined_request ''orderId'')
          (created_order sample_env declined_request ''total'') (paymentToken declined_request)
          (created_world sample_env declined_request (failing_at 3)))
     = Inl (PaymentError ''Payment capture failed'' (Some (Str ''ord-0a1b'')))
   \<and> stored_field (snd (handler sample_env (Parsed declined_request) (failing_at 3)))
        ''cart-123'' ''status'' = Some (Str ''CREATED'')
   \<and> stored_field (snd (handler sample_env (Parsed declined_request) (failing_at 3)))
        ''cart-123'' ''status'' \<noteq> Some (Str ''PAYMENT_FAILED'')
   \<and> statusCode (fst (handler sample_env (Parsed declined_request) (failing_at 3))) = 500
   \<and> statusCode (fst (handler sample_env (Parsed declined_request) (failing_at 3))) \<noteq> 402
   \<and> body (fst (handler sample_env (Parsed declined_request) (failing_at 3)))
       = ErrorResponse ''INTERNAL_ERROR'' ''An unexpected error occurred'' None"
proof -
  let ?w2 = "created_world sample_env declined_request (failing_at 3)"
  have ok: "\<not> faults ?w2 (calls ?w2)" "faults ?w2 (Suc (calls ?w2))"
    by (simp_all add: failing_at_simps)
  note ps = payment_step_declined_store_error [where w = ?w2 and request = declined_request
      and ev = sample_env and order = "created_order sample_env declined_request",
      OF ok(1) declined_request_facts(3) ok(2)]
  note h = handler_new_order [where request = declined_request and w = "failing_at 3"
      and ev = sample_env, OF declined_request_facts(1)]
  have c: "fst (capturePayment sample_env (created_order sample_env declined_request ''orderId'')
          (created_order sample_env declined_request ''total'') (paymentToken declined_request) ?w2)
     = Inl (PaymentError ''Payment capture failed'' (Some (Str ''ord-0a1b'')))"
    using declined_request_facts(3)
    by (simp add: capturePayment_eq failing_at_simps created_order_apply sample_env_def)
  have st: "stored_field (snd (handler sample_env (Parsed declined_request) (failing_at 3)))
        ''cart-123'' ''status'' = Some (Str ''CREATED'')"
    using created_world_simps(4) [of sample_env declined_request "failing_at 3"]
    by (simp add: h ps(5) failing_at_simps stored_field_def declined_request_facts(2)
        created_record_fields)
  have resp: "fst (handler sample_env (Parsed declined_request) (failing_at 3))
      = respond 500 (ErrorResponse INTERNAL_ERROR ''An unexpected error occurred'' None)"
    by (simp add: h ps(1) failing_at_simps outer_catch_def)
  show ?thesis
    using c st by (simp add: resp respond_def INTERNAL_ERROR_def)
qed



text \<open>
  Claim C3, as the code has it. When the gateway throws an exception that is not a
  decline (the third awaited call fails), the \<open>catch\<close> around the payment step still
  sends the update to \<open>PAYMENT_FAILED\<close>, before it looks at the kind of the exception: the
  invocation awaits four calls. If that update succeeds the record ends with the status
  \<open>PAYMENT_FAILED\<close> and no transaction id; it keeps the status \<open>CREATED\<close> only if the
  update fails as well. In both cases the answer is the generic internal error, 500.
\<close>

theorem gateway_exception_marks_failed:
  assumes "validateCheckoutRequest (Some request) = Inr request"
    and "table w (cartId request) = None"
    and "\<not> faults w (calls w)" and "\<not> faults w (Suc (calls w))"
    and "faults w (Suc (Suc (calls w)))"
  shows "fst (handler ev (Parsed request) w)
           = respond 500 (ErrorResponse INTERNAL_ERROR ''An unexpected error occurred'' None)
       \<and> statusCode (fst (handler ev (Parsed request) w)) = 500
       \<and> body (fst (handler ev (Parsed request) w))
           = ErrorResponse ''INTERNAL_ERROR'' ''An unexpected error occurred'' None
       \<and> calls (snd (handler ev (Parsed request) w)) = Suc (Suc (Suc (Suc (calls w))))
       \<and> stored_field (snd (handler ev (Parsed request) w)) (cartId request) ''transactionId''
           = None
       \<and> (\<not> faults w (Suc (Suc (Suc (calls w)))) \<longrightarrow>
            stored_field (snd (handler ev (Parsed request) w)) (cartId request) ''status''
              = Some (Str ''PAYMENT_FAILED''))
       \<and> (faults w (Suc (Suc (Suc (calls w)))) \<longrightarrow>
            stored_field (snd (handler ev (Parsed request) w)) (cartId request) ''status''
              = Some (Str ''CREATED''))"
proof (cases "faults w (Suc (Suc (Suc (calls w))))")
  case False
  let ?w2 = "created_world ev request w"
  have ok: "faults ?w2 (calls ?w2)" "\<not> faults ?w2 (Suc (calls ?w2))"
    using assms False by simp_all
  note ps = payment_step_gateway_error [where w = ?w2 and request = request and ev = ev
      and order = "created_order ev request", OF ok]
  note h = handler_new_order [where request = request and w = w and ev = ev, OF assms(1-4)]
  show ?thesis
    using False
    by (simp add: h ps outer_catch_def created_record_fields respond_def INTERNAL_ERROR_def)
next
  case True
  let ?w2 = "created_world ev request w"
  have ok: "faults ?w2 (calls ?w2)" "faults ?w2 (Suc (calls ?w2))"
    using assms True by simp_all
  note ps = payment_step_gateway_error_store_error [where w = ?w2 and request = request
      and ev = ev and order = "created_order ev request", OF ok]
  note h = handler_new_order [where request = request and w = w and ev = ev, OF assms(1-4)]
  show ?thesis
    using True
    by (simp add: h ps outer_catch_def stored_field_def created_record_fields respond_def
        INTERNAL_ERROR_def)
qed

theorem gateway_exception_marks_failed_witness:
  "validateCheckoutRequest (Some sample_request) = Inr sample_request
   \<and> table (failing_at 2) (cartId sample_request) = None
   \<and> faults (failing_at 2) (Suc (Suc (calls (failing_at 2))))
   \<and> calls (snd (handler sample_env (Parsed sample_request) (failing_at 2)))
       = Suc (Suc (Suc (Suc (calls (failing_at 2)))))
   \<and> statusCode (fst (handler sample_env (Parsed sample_request) (failing_at 2))) = 500
   \<and> stored_field (snd (handler sample_env (Parsed sample_request) (failing_at 2)))
        (cartId sample_request) ''status'' = Some (Str ''PAYMENT_FAILED'')"
proof -
  have a: "table (failing_at 2) (cartId sample_request) = None"
    and b: "\<not> faults (failing_at 2) (calls (failing_at 2))"
      "\<not> faults (failing_at 2) (Suc (calls (failing_at 2)))"
    and c: "faults (failing_at 2) (Suc (Suc (calls (failing_at 2))))"
    and d: "\<not> faults (failing_at 2) (Suc (Suc (Suc (calls (failing_at 2)))))"
    by (simp_all add: failing_at_simps)
  show ?thesis
    using sample_request_valid a c d
      gateway_exception_marks_failed [OF sample_request_valid a b c, where ev = sample_env]
    by blast
qed

text \<open>
  The claim as the specification states it fails: with the request of the tests, an
  empty table and a gateway that throws a plain exception (the failure of the third
  call), a status update is performed, which is the fourth awaited call, and the
  persisted order is left at \<open>PAYMENT_FAILED\<close>, not at \<open>CREATED\<close>.
\<close>

theorem gateway_exception_counterexample:
  "fst (capturePayment sample_env (created_order sample_env sample_request ''orderId'')
          (created_order sample_env sample_request ''total'') (paymentToken sample_request)
          (created_world sample_env sample_request (failing_at 2)))
     = Inl (Error ''Network timeout'')
   \<and> calls (snd (handler sample_env (Parsed sample_request) (failing_at 2))) = 4
   \<and> stored_field (snd (handler sample_env (Parsed sample_request) (failing_at 2)))
        ''cart-123'' ''status'' = Some (Str ''PAYMENT_FAILED'')
   \<and> stored_field (snd (handler sample_env (Parsed sample_request) (failing_at 2)))
        ''cart-123'' ''status'' \<noteq> Some (Str ''CREATED'')
   \<and> statusCode (fst (handler sample_env (Parsed sample_request) (failing_at 2))) = 500"
proof -
  let ?w2 = "created_world sample_env sample_request (failing_at 2)"
  have ok: "faults ?w2 (calls ?w2)" "\<not> faults ?w2 (Suc (calls ?w2))"
    by (simp_all add: failing_at_simps)
  note ps = payment_step_gateway_error [where w = ?w2 and request = sample_request
      and ev = sample_env and order = "created_order sample_env sample_request", OF ok]
  note h = handler_new_order [where request = sample_request and w = "failing_at 2"
      and ev = sample_env, OF sample_request_valid]
  have c: "fst (capturePayment sample_env (created_order sample_env sample_request ''orderId'')
          (created_order sample_env sample_request ''total'') (paymentToken sample_request) ?w2)
     = Inl (Error ''Network timeout'')"
    by (simp add: capturePayment_eq failing_at_simps)
  show ?thesis
    using c ps(5) [of "''status''"]
    by (simp add: h ps(1,3) failing_at_simps outer_catch_def respond_def sample_request_fields)
qed

section \<open>Properties of concurrent invocations\<close>

text \<open>
  Run to completion without interference, the process of an invocation is the handler:
  five steps reach the answer from every body and every world.
\<close>

lemma run_proc_Returned [simp]: "run_proc n (Returned r) w = (Returned r, w)"
  by (induction n) simp_all

lemma run_proc_handler:
  "run_proc 5 (Received ev b) w = (Returned (fst (handler ev b w)), snd (handler ev b w))"
proof (cases b)
  case Absent
  then show ?thesis
    by (simp add: eval_nat_numeral handler_def checkout_def validateCheckoutRequest_def)
next
  case Malformed
  then show ?thesis
    by (simp add: eval_nat_numeral handler_def)
next
  case (Parsed r)
  show ?thesis
  proof (cases "validateCheckoutRequest (Some r)")
    case (Inl e)
    then show ?thesis
      using Parsed by (simp add: eval_nat_numeral handler_def checkout_def)
  next
    case (Inr request)
    then show ?thesis
      using Parsed
      by (auto simp: eval_nat_numeral handler_def checkout_def getExistingOrder_eq createOrder_eq
          send_PutCommand_eq payment_step_def payment_try_def payment_catch_def capturePayment_eq
          updateOrderStatus_eq Let_def split: if_splits option.splits)
  qed
qed

lemma proc_step_table_mono:
  "proc_step p w = (p', w') \<Longrightarrow> table w c \<noteq> None \<Longrightarrow> table w' c \<noteq> None"
  by (cases p)
    (auto simp: getExistingOrder_eq send_PutCommand_eq capturePayment_eq updateOrderStatus_eq
      payment_catch_def Let_def
      split: event_body.splits sum.splits if_splits option.splits prod.splits error.splits)

lemma proc_step_new_holder:
  "proc_step p w = (p', w') \<Longrightarrow> holds_capture c p' \<Longrightarrow>
     \<not> holds_capture c p \<and> table w c = None \<and> table w' c \<noteq> None"
  by (cases p)
    (auto simp: getExistingOrder_eq send_PutCommand_eq capturePayment_eq updateOrderStatus_eq
      payment_catch_def Let_def
      split: event_body.splits sum.splits if_splits option.splits prod.splits error.splits)

lemma proc_step_gateway_calls:
  "proc_step p w = (p', w') \<Longrightarrow>
     gateway_calls w' = gateway_calls w @ map snd (capture_label p)"
  by (cases p)
    (auto simp: getExistingOrder_eq send_PutCommand_eq capturePayment_eq updateOrderStatus_eq
      payment_catch_def Let_def
      split: event_body.splits sum.splits if_splits option.splits prod.splits error.splits)

lemma capture_label_count:
  "length (filter (\<lambda>l. fst l = c) (capture_label p)) = (if holds_capture c p then 1 else 0)"
  by (cases p) simp_all

lemma length_filter_update:
  "i < length xs \<Longrightarrow>
     length (filter P (xs[i := y])) + (if P (xs ! i) then 1 else 0)
       = length (filter P xs) + (if P y then 1 else 0)"
proof (induction xs arbitrary: i)
  case Nil
  then show ?case by simp
next
  case (Cons x xs)
  then show ?case
    by (cases i) auto
qed

lemma reachable_invariant:
  assumes "reachable w0 w ps cs xs"
  shows "length (filter (holds_capture c) ps) + length (filter (\<lambda>l. fst l = c) cs)
           \<le> count_list xs c + (if table w c = None then 0 else 1)
       \<and> gateway_calls w = gateway_calls w0 @ map snd cs"
  using assms
proof (induction rule: reachable.induct)
  case start
  then show ?case by simp
next
  case (arrive w ps cs xs ev b)
  then show ?case by simp
next
  case (step w ps cs xs i p' w')
  let ?h = "length (filter (holds_capture c) ps)"
  let ?k = "length (filter (\<lambda>l. fst l = c) cs)"
  let ?h' = "length (filter (holds_capture c) (ps[i := p']))"
  let ?k' = "length (filter (\<lambda>l. fst l = c) (cs @ capture_label (ps ! i)))"
  have upd: "?h' + (if holds_capture c (ps ! i) then 1 else 0)
               = ?h + (if holds_capture c p' then 1 else 0)"
    using step.hyps(2) by (rule length_filter_update)
  have lab: "?k' = ?k + (if holds_capture c (ps ! i) then 1 else 0)"
    by (simp add: capture_label_count)
  have total: "?h' + ?k' = ?h + ?k + (if holds_capture c p' then 1 else 0)"
    using upd lab by simp
  have gw: "gateway_calls w' = gateway_calls w0 @ map snd (cs @ capture_label (ps ! i))"
    using proc_step_gateway_calls [OF step.hyps(3)] step.IH by simp
  show ?case
  proof (cases "holds_capture c p'")
    case True
    then have new: "table w c = None" "table w' c \<noteq> None"
      using proc_step_new_holder [OF step.hyps(3)] by simp_all
    then have le: "?h + ?k \<le> count_list xs c"
      using step.IH by simp
    have one: "(if holds_capture c p' then 1 else 0) = (1::nat)"
      using True by simp
    have there: "(if table w' c = None then 0 else 1) = (1::nat)"
      using new(2) by simp
    have "?h' + ?k' \<le> count_list xs c + (if table w' c = None then 0 else 1)"
      using total one le there by linarith
    then show ?thesis
      using gw by (rule conjI)
  next
    case False
    then have same: "?h' + ?k' = ?h + ?k"
      using total by simp
    have "table w c \<noteq> None \<Longrightarrow> table w' c \<noteq> None"
      using proc_step_table_mono [OF step.hyps(3)] by simp
    then show ?thesis
      using same step.IH gw by (auto split: if_splits)
  qed
next
  case (expire w ps cs xs c' now)
  have "table w c' \<noteq> None"
    using expire.hyps(2) by (rule expired_has_record)
  then show ?case
    using expire.IH expire.hyps(2)
    by (auto simp: expire_record_def split: if_splits)
qed

lemma run_proc_Reread_gateway:
  "gateway_calls (snd (run_proc n (Reread_pending request) w)) = gateway_calls w"
proof (cases n)
  case 0
  then show ?thesis by simp
next
  case (Suc m)
  then show ?thesis
    by (auto simp: getExistingOrder_eq split: option.splits)
qed

lemma reachable_sys_step:
  assumes "reachable w0 w ps cs xs" and "sys_step a (w, ps, cs, xs) = (w', ps', cs', xs')"
  shows "reachable w0 w' ps' cs' xs'"
proof (cases a)
  case (Step i)
  show ?thesis
  proof (cases "i < length ps")
    case True
    obtain p1 w1 where st: "proc_step (ps ! i) w = (p1, w1)"
      by (cases "proc_step (ps ! i) w")
    then have "w' = w1" "ps' = ps[i := p1]" "cs' = cs @ capture_label (ps ! i)" "xs' = xs"
      using assms(2) True Step by simp_all
    then show ?thesis
      using reachable.step [OF assms(1) True st] by simp
  next
    case False
    then show ?thesis
      using assms Step by simp
  qed
next
  case (Expire c now)
  show ?thesis
  proof (cases "expired c now w")
    case True
    then have "w' = expire_record c now w" "ps' = ps" "cs' = cs" "xs' = xs @ [c]"
      using assms(2) Expire by simp_all
    then show ?thesis
      using reachable.expire [OF assms(1) True] by simp
  next
    case False
    then show ?thesis
      using assms Expire by simp
  qed
qed

lemma reachable_run_schedule:
  assumes "reachable w0 w ps cs xs" and "run_schedule sched (w, ps, cs, xs) = (w', ps', cs', xs')"
  shows "reachable w0 w' ps' cs' xs'"
  using assms
proof (induction sched arbitrary: w ps cs xs)
  case Nil
  then show ?case by (simp add: run_schedule_def)
next
  case (Cons a sched)
  obtain w1 ps1 cs1 xs1 where s1: "sys_step a (w, ps, cs, xs) = (w1, ps1, cs1, xs1)"
    by (cases "sys_step a (w, ps, cs, xs)")
  then have r1: "reachable w0 w1 ps1 cs1 xs1"
    using Cons.prems(1) reachable_sys_step by blast
  have "run_schedule sched (w1, ps1, cs1, xs1) = (w', ps', cs', xs')"
    using Cons.prems(2) s1 by (simp add: run_schedule_def)
  then show ?case
    using Cons.IH r1 by blast
qed

lemma reachable_two_arrived:
  "reachable w0 w0 [Received ev1 b1, Received ev2 b2] [] []"
proof -
  have "reachable w0 w0 (([] @ [Received ev1 b1]) @ [Received ev2 b2]) [] []"
    by (intro reachable.arrive reachable.start)
  then show ?thesis
    by simp
qed

lemma race_labels:
  "map fst (fst (snd (snd race))) = [''cart-123''] \<and> snd (snd (snd race)) = []"
  unfolding race_def by code_simp

lemma race_reachable:
  "reachable empty_world (fst race) (fst (snd race)) (fst (snd (snd race))) (snd (snd (snd race)))"
proof -
  have "run_schedule [Step 0, Step 1, Step 0, Step 1, Step 1, Step 0, Step 0]
            (empty_world,
             [Received sample_env (Parsed sample_request),
              Received other_env (Parsed sample_request)],
             [], []) = (fst race, fst (snd race), fst (snd (snd race)), snd (snd (snd race)))"
    by (simp add: race_def)
  with reachable_two_arrived show ?thesis
    by (rule reachable_run_schedule)
qed

lemma recapture_labels:
  "map fst (fst (snd (snd recapture))) = [''cart-123'', ''cart-123'']
   \<and> map fst (gateway_calls (fst recapture)) = [Some (Str ''ord-0a1b''), Some (Str ''ord-4e5f'')]
   \<and> snd (snd (snd recapture)) = [''cart-123'']"
  unfolding recapture_def by code_simp

lemma recapture_reachable:
  "reachable empty_world (fst recapture) (fst (snd recapture)) (fst (snd (snd recapture)))
     (snd (snd (snd recapture)))"
proof -
  have "run_schedule [Step 0, Step 0, Step 0, Step 0, Expire ''cart-123'' 1771675201,
                      Step 1, Step 1, Step 1, Step 1]
            (empty_world,
             [Received sample_env (Parsed sample_request),
              Received later_env (Parsed sample_request)],
             [], []) = (fst recapture, fst (snd recapture), fst (snd (snd recapture)),
                        snd (snd (snd recapture)))"
    by (simp add: recapture_def)
  with reachable_two_arrived show ?thesis
    by (rule reachable_run_schedule)
qed

text \<open>
  Claim C1, as the code has it. An invocation loses the creation race when its
  conditional put finds a record: the put fails with \<open>ConditionalCheckFailedException\<close> and
  the invocation goes on to re-read. The re-read that finds the record makes it return
  that order with the status code 200. From the re-read on, whatever the store does and
  however many steps are taken, the invocation never calls the gateway; and when
  \<open>createOrder\<close> as a whole reports an existing order it has neither written to the table
  nor called the gateway. Across all invocations, in every interleaving of their steps
  with the expiries of the store, from any initial world and under any schedule of
  failures, the calls the gateway has seen are exactly the labelled steps, and the
  gateway is called for a given cart at most once more than the store has expired a
  record of that cart: at most once for as long as no record of the cart expires.
\<close>

theorem lost_race_never_captures:
  "(table w (cartId request) = Some item \<and> \<not> faults w (calls w) \<longrightarrow>
      fst (send_PutCommand (cartId request) (created_record ev request) w)
        = Inl ConditionalCheckFailedException
      \<and> proc_step (Put_pending ev request) w
        = (Reread_pending request, w\<lparr>calls := Suc (calls w)\<rparr>))
   \<and> (table w (cartId request) = Some item \<and> \<not> faults w (calls w) \<longrightarrow>
      proc_step (Reread_pending request) w
        = (Returned (respond 200 (SuccessResponse (mapRecordToOrder item))),
           w\<lparr>calls := Suc (calls w)\<rparr>)
      \<and> (\<exists>r. fst (proc_step (Reread_pending request) w) = Returned r
            \<and> statusCode r = 200 \<and> body r = SuccessResponse (mapRecordToOrder item)))
   \<and> gateway_calls (snd (run_proc n (Reread_pending request) w)) = gateway_calls w
   \<and> (fst (createOrder ev c tok pricing w) = Inr (order, True) \<longrightarrow>
        gateway_calls (snd (createOrder ev c tok pricing w)) = gateway_calls w
        \<and> table (snd (createOrder ev c tok pricing w)) = table w)
   \<and> (reachable w0 w1 ps cs xs \<longrightarrow>
        length (filter (\<lambda>l. fst l = c) cs) \<le> 1 + count_list xs c
        \<and> (c \<notin> set xs \<longrightarrow> length (filter (\<lambda>l. fst l = c) cs) \<le> 1)
        \<and> gateway_calls w1 = gateway_calls w0 @ map snd cs)"
proof (intro conjI impI)
  assume h: "table w (cartId request) = Some item \<and> \<not> faults w (calls w)"
  then show "fst (send_PutCommand (cartId request) (created_record ev request) w)
        = Inl ConditionalCheckFailedException"
    by (simp add: send_PutCommand_def next_fault_def)
  from h show "proc_step (Put_pending ev request) w
        = (Reread_pending request, w\<lparr>calls := Suc (calls w)\<rparr>)"
    by (simp add: send_PutCommand_def next_fault_def)
  from h show "proc_step (Reread_pending request) w
        = (Returned (respond 200 (SuccessResponse (mapRecordToOrder item))),
           w\<lparr>calls := Suc (calls w)\<rparr>)"
    by (simp add: getExistingOrder_def send_GetCommand_def next_fault_def)
  from h show "\<exists>r. fst (proc_step (Reread_pending request) w) = Returned r
            \<and> statusCode r = 200 \<and> body r = SuccessResponse (mapRecordToOrder item)"
    by (simp add: getExistingOrder_def send_GetCommand_def next_fault_def respond_def)
next
  show "gateway_calls (snd (run_proc n (Reread_pending request) w)) = gateway_calls w"
    by (rule run_proc_Reread_gateway)
next
  assume "fst (createOrder ev c tok pricing w) = Inr (order, True)"
  then show "gateway_calls (snd (createOrder ev c tok pricing w)) = gateway_calls w"
    and "table (snd (createOrder ev c tok pricing w)) = table w"
    by (auto simp: createOrder_def send_PutCommand_def getExistingOrder_def send_GetCommand_def
        next_fault_def Let_def split: if_splits option.splits)
next
  assume r: "reachable w0 w1 ps cs xs"
  have inv: "length (filter (holds_capture c) ps) + length (filter (\<lambda>l. fst l = c) cs)
           \<le> count_list xs c + (if table w1 c = None then 0 else 1)"
    using reachable_invariant [OF r, of c] by simp
  then show "length (filter (\<lambda>l. fst l = c) cs) \<le> 1 + count_list xs c"
    by (simp split: if_splits)
  show "gateway_calls w1 = gateway_calls w0 @ map snd cs"
    using reachable_invariant [OF r, of c] by simp
  assume "c \<notin> set xs"
  then have "count_list xs c = 0"
    by (simp add: count_list_0_iff)
  then show "length (filter (\<lambda>l. fst l = c) cs) \<le> 1"
    using inv by (simp split: if_splits)
qed

theorem lost_race_never_captures_witness:
  "table stored_world (cartId sample_request) = Some stored_record
   \<and> \<not> faults stored_world (calls stored_world)
   \<and> proc_step (Put_pending sample_env sample_request) stored_world
       = (Reread_pending sample_request, stored_world\<lparr>calls := Suc (calls stored_world)\<rparr>)
   \<and> proc_step (Reread_pending sample_request) stored_world
       = (Returned (respond 200 (SuccessResponse (mapRecordToOrder stored_record))),
          stored_world\<lparr>calls := Suc (calls stored_world)\<rparr>)
   \<and> fst (createOrder sample_env ''cart-123'' ''tok_valid''
             (calculatePricing (cart_items sample_request)) stored_world)
       = Inr (mapRecordToOrder stored_record, True)
   \<and> gateway_calls (snd (createOrder sample_env ''cart-123'' ''tok_valid''
             (calculatePricing (cart_items sample_request)) stored_world))
       = gateway_calls stored_world
   \<and> reachable empty_world (fst race) (fst (snd race)) (fst (snd (snd race)))
        (snd (snd (snd race)))
   \<and> map fst (fst (snd (snd race))) = [''cart-123'']
   \<and> ''cart-123'' \<notin> set (snd (snd (snd race)))
   \<and> length (filter (\<lambda>l. fst l = ''cart-123'') (fst (snd (snd race)))) \<le> 1
   \<and> gateway_calls (fst race) = gateway_calls empty_world @ map snd (fst (snd (snd race)))"
proof -
  have a: "table stored_world (cartId sample_request) = Some stored_record"
    and b: "\<not> faults stored_world (calls stored_world)"
    by (simp_all add: stored_world_def empty_world_def sample_request_def)
  have c: "fst (createOrder sample_env ''cart-123'' ''tok_valid''
             (calculatePricing (cart_items sample_request)) stored_world)
       = Inr (mapRecordToOrder stored_record, True)"
    by (simp add: createOrder_eq stored_world_def empty_world_def)
  have d: "''cart-123'' \<notin> set (snd (snd (snd race)))"
    using race_labels by simp
  note l = race_labels [THEN conjunct1]
  show ?thesis
    using a b c d l race_reachable
      lost_race_never_captures [where w = stored_world and request = sample_request
        and item = stored_record and ev = sample_env and c = "''cart-123''"
        and tok = "''tok_valid''" and pricing = "calculatePricing (cart_items sample_request)"
        and order = "mapRecordToOrder stored_record" and ?w0.0 = empty_world
        and ?w1.0 = "fst race" and ps = "fst (snd race)" and cs = "fst (snd (snd race))"
        and xs = "snd (snd (snd race))"]
    by blast
qed

text \<open>
  The claim as the specification states it fails in its last clause: the first invocation
  for the cart creates the order, captures the payment and returns; a day and a second
  later the store deletes the record, which is due; a second invocation for the same cart,
  a day and a hundred seconds after the first, finds no record, creates another order and
  captures the payment again. The gateway has been called twice for one \<open>cartId\<close>.
\<close>

theorem capture_after_expiry_counterexample:
  "reachable empty_world (fst recapture) (fst (snd recapture)) (fst (snd (snd recapture)))
     (snd (snd (snd recapture)))
   \<and> map fst (fst (snd (snd recapture))) = [''cart-123'', ''cart-123'']
   \<and> map fst (gateway_calls (fst recapture)) = [Some (Str ''ord-0a1b''), Some (Str ''ord-4e5f'')]
   \<and> snd (snd (snd recapture)) = [''cart-123'']"
  using recapture_reachable recapture_labels by (intro conjI) simp_all

text \<open>
  Claim C5. There are executions in which the payment is captured and the order is
  nevertheless persisted as failed: when the gateway captures the payment (third call)
  and the update to \<open>PAYMENT_CAPTURED\<close> then throws (fourth call), the \<open>catch\<close> around
  the payment step, which does not tell a failed capture from a failed update, sends the
  update to \<open>PAYMENT_FAILED\<close> (fifth call). If that one succeeds, the record of the
  captured payment has the status \<open>PAYMENT_FAILED\<close> and no transaction id, and the
  answer is the generic internal error.
\<close>

theorem captured_payment_marked_failed:
  assumes "validateCheckoutRequest (Some request) = Inr request"
    and "table w (cartId request) = None"
    and "paymentToken request \<notin> FAILURE_TOKENS"
    and "\<not> faults w (calls w)" and "\<not> faults w (Suc (calls w))"
    and "\<not> faults w (Suc (Suc (calls w)))"
    and "faults w (Suc (Suc (Suc (calls w))))"
    and "\<not> faults w (Suc (Suc (Suc (Suc (calls w)))))"
  shows "fst (capturePayment ev (created_order ev request ''orderId'')
                (created_order ev request ''total'') (paymentToken request)
                (created_world ev request w))
           = Inr \<lparr>transactionId = ''txn-'' @ txn_uuid ev, status = ''captured''\<rparr>
       \<and> fst (updateOrderStatus (cartId request) PAYMENT_CAPTURED (Some (''txn-'' @ txn_uuid ev))
                (snd (capturePayment ev (created_order ev request ''orderId'')
                        (created_order ev request ''total'') (paymentToken request)
                        (created_world ev request w))))
           = Inl (Error ''DynamoDB request failed'')
       \<and> gateway_calls (snd (handler ev (Parsed request) w))
           = gateway_calls w @ [(Some (Str (''ord-'' @ order_uuid ev)),
                                 Some (Num (total (calculatePricing (cart_items request)))),
                                 paymentToken request)]
       \<and> calls (snd (handler ev (Parsed request) w)) = Suc (Suc (Suc (Suc (Suc (calls w)))))
       \<and> stored_field (snd (handler ev (Parsed request) w)) (cartId request) ''status''
           = Some (Str ''PAYMENT_FAILED'')
       \<and> stored_field (snd (handler ev (Parsed request) w)) (cartId request) ''transactionId''
           = None
       \<and> fst (handler ev (Parsed request) w)
           = respond 500 (ErrorResponse INTERNAL_ERROR ''An unexpected error occurred'' None)
       \<and> statusCode (fst (handler ev (Parsed request) w)) = 500"
proof -
  let ?w2 = "created_world ev request w"
  have ok: "\<not> faults ?w2 (calls ?w2)" "faults ?w2 (Suc (calls ?w2))"
    "\<not> faults ?w2 (Suc (Suc (calls ?w2)))"
    using assms by simp_all
  note ps = payment_step_captured_store_error [where w = ?w2 and request = request and ev = ev
      and order = "created_order ev request", OF ok(1) assms(3) ok(2,3)]
  note h = handler_new_order [where request = request and w = w and ev = ev, OF assms(1,2,4,5)]
  have cap: "fst (capturePayment ev (created_order ev request ''orderId'')
                (created_order ev request ''total'') (paymentToken request) ?w2)
           = Inr \<lparr>transactionId = ''txn-'' @ txn_uuid ev, status = ''captured''\<rparr>"
    using ok(1) assms(3) by (simp add: capturePayment_eq)
  have upd: "fst (updateOrderStatus (cartId request) PAYMENT_CAPTURED (Some (''txn-'' @ txn_uuid ev))
                (snd (capturePayment ev (created_order ev request ''orderId'')
                        (created_order ev request ''total'') (paymentToken request) ?w2)))
           = Inl (Error ''DynamoDB request failed'')"
    using ok(2) by (simp add: capturePayment_eq updateOrderStatus_eq)
  show ?thesis
    using cap upd
    by (simp add: h ps outer_catch_def created_record_fields created_order_apply respond_def)
qed

theorem captured_payment_marked_failed_witness:
  "validateCheckoutRequest (Some sample_request) = Inr sample_request
   \<and> table (failing_at 3) (cartId sample_request) = None
   \<and> paymentToken sample_request \<notin> FAILURE_TOKENS
   \<and> faults (failing_at 3) (Suc (Suc (Suc (calls (failing_at 3)))))
   \<and> gateway_calls (snd (handler sample_env (Parsed sample_request) (failing_at 3)))
       = gateway_calls (failing_at 3)
           @ [(Some (Str (''ord-'' @ order_uuid sample_env)),
               Some (Num (total (calculatePricing (cart_items sample_request)))),
               paymentToken sample_request)]
   \<and> stored_field (snd (handler sample_env (Parsed sample_request) (failing_at 3)))
        (cartId sample_request) ''status'' = Some (Str ''PAYMENT_FAILED'')"
proof -
  have a: "table (failing_at 3) (cartId sample_request) = None"
    and b: "\<not> faults (failing_at 3) (calls (failing_at 3))"
      "\<not> faults (failing_at 3) (Suc (calls (failing_at 3)))"
      "\<not> faults (failing_at 3) (Suc (Suc (calls (failing_at 3))))"
    and c: "faults (failing_at 3) (Suc (Suc (Suc (calls (failing_at 3)))))"
    and d: "\<not> faults (failing_at 3) (Suc (Suc (Suc (Suc (calls (failing_at 3))))))"
    by (simp_all add: failing_at_simps)
  show ?thesis
    using sample_request_valid a sample_request_fields(3) c
      captured_payment_marked_failed [OF sample_request_valid a sample_request_fields(3) b c d,
        where ev = sample_env]
    by blast
qed

lemma outer_catch_no_token [simp]: "holds_no_token (Returned (outer_catch e))"
  by (simp add: outer_catch_def respond_def)

lemma proc_step_no_token:
  "holds_no_token p \<Longrightarrow> holds_no_token (fst (proc_step p w))"
  by (cases p)
    (auto simp: getExistingOrder_eq send_PutCommand_eq capturePayment_eq updateOrderStatus_eq
      payment_catch_def Let_def respond_def outer_catch_def mapRecordToOrder_paymentToken
      completedOrder_apply
      split: event_body.splits sum.splits if_splits option.splits prod.splits error.splits)

lemma reachable_no_token:
  assumes "reachable w0 w ps cs xs"
  shows "list_all holds_no_token ps"
  using assms
proof (induction rule: reachable.induct)
  case start
  then show ?case by simp
next
  case (arrive w ps cs xs ev b)
  then show ?case by simp
next
  case (expire w ps cs xs c now)
  then show ?case by simp
next
  case (step w ps cs xs i p' w')
  have "holds_no_token (ps ! i)"
    using step.IH step.hyps(2) by (simp add: list_all_length)
  then have "holds_no_token p'"
    using proc_step_no_token [of "ps ! i" w] step.hyps(3) by simp
  moreover have "set (ps[i := p']) \<subseteq> insert p' (set ps)"
    by (rule set_update_subset_insert)
  ultimately show ?case
    using step.IH by (auto simp: list_all_iff)
qed

lemma mapRecordToOrder_cong:
  assumes "\<And>f. f \<noteq> ''paymentToken'' \<Longrightarrow> r1 f = r2 f"
  shows "mapRecordToOrder r1 = mapRecordToOrder r2"
proof
  fix f
  show "mapRecordToOrder r1 f = mapRecordToOrder r2 f"
    using assms [of f] assms [of "''transactionId''"]
    by (auto simp: mapRecordToOrder_apply)
qed

text \<open>
  Claim C10. The order that \<open>mapRecordToOrder\<close> makes of a record has no \<open>paymentToken\<close>
  field, and it is the same order for two records that differ in the payment token only.
  Every order that crosses the outbound boundary is made by it: the order that
  \<open>getExistingOrder\<close> returns, the order that \<open>createOrder\<close> returns, and the order in the
  body of a handler's answer have no \<open>paymentToken\<close> field. The same holds when
  invocations interleave with each other and with the expiries of the store: in every
  reachable state, no invocation holds an order with a \<open>paymentToken\<close> field or has answered
  with one.
\<close>

theorem paymentToken_never_returned:
  "mapRecordToOrder r ''paymentToken'' = None
   \<and> ((\<forall>f. f \<noteq> ''paymentToken'' \<longrightarrow> r1 f = r2 f) \<longrightarrow> mapRecordToOrder r1 = mapRecordToOrder r2)
   \<and> (fst (getExistingOrder c w) = Inr (Some order) \<longrightarrow> order ''paymentToken'' = None)
   \<and> (fst (createOrder ev c tok pricing w) = Inr (order, isExisting) \<longrightarrow>
        order ''paymentToken'' = None)
   \<and> (body (fst (handler ev b w)) = SuccessResponse order \<longrightarrow> order ''paymentToken'' = None)
   \<and> (reachable w0 w1 ps cs xs \<longrightarrow> list_all holds_no_token ps)"
proof (intro conjI impI)
  show "mapRecordToOrder r ''paymentToken'' = None"
    by (rule mapRecordToOrder_paymentToken)
next
  assume "\<forall>f. f \<noteq> ''paymentToken'' \<longrightarrow> r1 f = r2 f"
  then show "mapRecordToOrder r1 = mapRecordToOrder r2"
    by (intro mapRecordToOrder_cong) simp
next
  assume "fst (getExistingOrder c w) = Inr (Some order)"
  then show "order ''paymentToken'' = None"
    by (auto simp: getExistingOrder_eq mapRecordToOrder_paymentToken split: if_splits)
next
  assume "fst (createOrder ev c tok pricing w) = Inr (order, isExisting)"
  then show "order ''paymentToken'' = None"
    by (auto simp: createOrder_eq mapRecordToOrder_paymentToken split: if_splits)
next
  assume "body (fst (handler ev b w)) = SuccessResponse order"
  then show "order ''paymentToken'' = None"
    by (rule handler_success_order)
next
  assume "reachable w0 w1 ps cs xs"
  then show "list_all holds_no_token ps"
    by (rule reachable_no_token)
qed

theorem paymentToken_never_returned_witness:
  "stored_record ''paymentToken'' = Some (Str ''tok_valid'')
   \<and> mapRecordToOrder stored_record ''paymentToken'' = None
   \<and> mapRecordToOrder (stored_record(''paymentToken'' \<mapsto> Str ''tok_other''))
       = mapRecordToOrder stored_record
   \<and> fst (getExistingOrder ''cart-123'' stored_world) = Inr (Some (mapRecordToOrder stored_record))
   \<and> fst (createOrder sample_env ''cart-123'' ''tok_valid''
             (calculatePricing (cart_items sample_request)) stored_world)
       = Inr (mapRecordToOrder stored_record, True)
   \<and> body (fst (handler sample_env (Parsed sample_request) stored_world))
       = SuccessResponse (mapRecordToOrder stored_record)
   \<and> reachable empty_world (fst race) (fst (snd race)) (fst (snd (snd race)))
        (snd (snd (snd race)))
   \<and> list_all holds_no_token (fst (snd race))"
proof -
  have h1: "stored_record ''paymentToken'' = Some (Str ''tok_valid'')"
    by (simp add: stored_record_def)
  have h2: "\<forall>f. f \<noteq> ''paymentToken'' \<longrightarrow>
              (stored_record(''paymentToken'' \<mapsto> Str ''tok_other'')) f = stored_record f"
    by simp
  have h3: "fst (getExistingOrder ''cart-123'' stored_world) = Inr (Some (mapRecordToOrder stored_record))"
    by (simp add: getExistingOrder_eq stored_world_def empty_world_def)
  have h4: "fst (createOrder sample_env ''cart-123'' ''tok_valid''
             (calculatePricing (cart_items sample_request)) stored_world)
       = Inr (mapRecordToOrder stored_record, True)"
    by (simp add: createOrder_eq stored_world_def empty_world_def)
  have h5: "body (fst (handler sample_env (Parsed sample_request) stored_world))
       = SuccessResponse (mapRecordToOrder stored_record)"
    using sample_request_valid
    by (simp add: handler_def checkout_def getExistingOrder_eq stored_world_def empty_world_def
        sample_request_fields respond_def)
  show ?thesis
    using h1 h2 h3 h4 h5 race_reachable
      paymentToken_never_returned [where r = stored_record
        and ?r1.0 = "stored_record(''paymentToken'' \<mapsto> Str ''tok_other'')"
        and ?r2.0 = stored_record and c = "''cart-123''" and w = stored_world
        and order = "mapRecordToOrder stored_record" and ev = sample_env
        and tok = "''tok_valid''" and pricing = "calculatePricing (cart_items sample_request)"
        and isExisting = True and b = "Parsed sample_request" and ?w0.0 = empty_world
        and ?w1.0 = "fst race" and ps = "fst (snd race)" and cs = "fst (snd (snd race))"
        and xs = "snd (snd (snd race))"]
    by blast
qed

end
